theory Spec2Isabelle
  imports Complex_Main "HOL-Library.Char_ord" "HOL-Library.List_Lexorder" "HOL-Library.Log_Nat"
begin

section \<open>JavaScript values\<close>

text \<open>
  The dashboard is TypeScript running on spreadsheet rows whose cells are untyped at run
  time, so the embedding works on JavaScript values.  A finite number is a rational, and
  every sum, difference, product and quotient is rounded to the nearest double, ties to
  even, overflowing to an infinity; only the sign of zero is not modelled.  A string is a
  list of code units below 256.  Of a \<open>Date\<close> the model keeps the UTC year, the UTC
  month index and the milliseconds elapsed since the start of that month.
\<close>

datatype jsnum = Fin rat | NaN | PosInf | NegInf

datatype jsdate = InvalidDate | UTCDate int nat nat

datatype jsval = Undefined | Null | Bool bool | Num jsnum | Str string | DateV jsdate

text \<open>
  Built-ins of the host whose result depends on the engine, the locale or the time zone
  are parameters of the model; every theorem holds for every host.
\<close>

record host =
  numberToString :: "rat \<Rightarrow> string"
  dateToString :: "jsdate \<Rightarrow> string"
  stringToNumber :: "string \<Rightarrow> jsnum"
  dateValueOf :: "jsdate \<Rightarrow> jsnum"
  localeCompare :: "string \<Rightarrow> string \<Rightarrow> int"
  localFields :: "jsdate \<Rightarrow> int \<times> nat \<times> nat"

type_synonym row = "string \<Rightarrow> jsval"

definition truthy :: "jsval \<Rightarrow> bool" where
  "truthy v = (case v of
       Undefined \<Rightarrow> False
     | Null \<Rightarrow> False
     | Bool b \<Rightarrow> b
     | Num n \<Rightarrow> (case n of Fin q \<Rightarrow> q \<noteq> 0 | NaN \<Rightarrow> False | PosInf \<Rightarrow> True | NegInf \<Rightarrow> True)
     | Str s \<Rightarrow> s \<noteq> []
     | DateV d \<Rightarrow> True)"

text \<open>\<open>a || b\<close> and \<open>a ?? b\<close>.\<close>

definition js_or :: "jsval \<Rightarrow> jsval \<Rightarrow> jsval" where
  "js_or a b = (if truthy a then a else b)"

definition js_nullish :: "jsval \<Rightarrow> jsval \<Rightarrow> jsval" where
  "js_nullish a b = (if a = Undefined \<or> a = Null then b else a)"

subsection \<open>Strings\<close>

fun digitsOf :: "nat \<Rightarrow> string" where
  "digitsOf n = (if n < 10 then [char_of (48 + n)] else digitsOf (n div 10) @ [char_of (48 + n mod 10)])"

declare digitsOf.simps [simp del]

definition intToString :: "int \<Rightarrow> string" where
  "intToString i = (if i < 0 then CHR ''-'' # digitsOf (nat (- i)) else digitsOf (nat i))"

text \<open>
  \<open>String(v)\<close>.  An integer below \<open>2^53\<close> in magnitude prints as its decimal digits; the
  rendering of every other finite number and of a valid date is the host's.
\<close>

definition numToStr :: "host \<Rightarrow> jsnum \<Rightarrow> string" where
  "numToStr H n = (case n of
       Fin q \<Rightarrow> (if q = of_int \<lfloor>q\<rfloor> \<and> \<bar>q\<bar> < 2 ^ 53 then intToString \<lfloor>q\<rfloor> else numberToString H q)
     | NaN \<Rightarrow> ''NaN''
     | PosInf \<Rightarrow> ''Infinity''
     | NegInf \<Rightarrow> ''-Infinity'')"

definition toStr :: "host \<Rightarrow> jsval \<Rightarrow> string" where
  "toStr H v = (case v of
       Undefined \<Rightarrow> ''undefined''
     | Null \<Rightarrow> ''null''
     | Bool b \<Rightarrow> (if b then ''true'' else ''false'')
     | Num n \<Rightarrow> numToStr H n
     | Str s \<Rightarrow> s
     | DateV d \<Rightarrow> (case d of InvalidDate \<Rightarrow> ''Invalid Date'' | UTCDate y m r \<Rightarrow> dateToString H d))"

text \<open>
  \<open>toUpperCase\<close> and \<open>toLowerCase\<close> on code units below 256: the letters a to z, and
  the accented letters 0xE0 to 0xFE other than the division sign 0xF7, have their capital
  32 places below; the sharp s 0xDF becomes SS.  The capitals of 0xB5 and 0xFF lie beyond
  code 255 and are outside the model, which leaves the two characters as they are.
\<close>

definition upperChars :: "char \<Rightarrow> string" where
  "upperChars c =
     (if (CHR ''a'' \<le> c \<and> c \<le> CHR ''z'') \<or> (CHR 0xE0 \<le> c \<and> c \<le> CHR 0xFE \<and> c \<noteq> CHR 0xF7)
      then [char_of (of_char c - (32::nat))]
      else if c = CHR 0xDF then ''SS'' else [c])"

definition lowerChar :: "char \<Rightarrow> char" where
  "lowerChar c =
     (if (CHR ''A'' \<le> c \<and> c \<le> CHR ''Z'') \<or> (CHR 0xC0 \<le> c \<and> c \<le> CHR 0xDE \<and> c \<noteq> CHR 0xD7)
      then char_of (of_char c + (32::nat)) else c)"

definition toUpperCase :: "string \<Rightarrow> string" where
  "toUpperCase s = concat (map upperChars s)"

definition toLowerCase :: "string \<Rightarrow> string" where
  "toLowerCase s = map lowerChar s"

text \<open>
  White space and line terminators, as \<open>trim\<close> and \<open>parseInt\<close> strip them: tab, line
  feed, vertical tab, form feed, carriage return, space and the no-break space 0xA0 (the
  others lie beyond code 255).
\<close>

definition isWhiteSpace :: "char \<Rightarrow> bool" where
  "isWhiteSpace c = (c \<in> set [CHR 0x09, CHR 0x0A, CHR 0x0B, CHR 0x0C, CHR 0x0D, CHR '' '', CHR 0xA0])"

definition trim :: "string \<Rightarrow> string" where
  "trim s = rev (dropWhile isWhiteSpace (rev (dropWhile isWhiteSpace s)))"

fun startsWith :: "string \<Rightarrow> string \<Rightarrow> bool" where
  "startsWith s [] = True"
| "startsWith [] (p # ps) = False"
| "startsWith (c # cs) (p # ps) = (c = p \<and> startsWith cs ps)"

text \<open>\<open>s.includes(sub)\<close>.\<close>

fun str_includes :: "string \<Rightarrow> string \<Rightarrow> bool" where
  "str_includes [] sub = (sub = [])"
| "str_includes (c # cs) sub = (startsWith (c # cs) sub \<or> str_includes cs sub)"

text \<open>\<open>s.substring(0, 3)\<close>.\<close>

definition substring03 :: "string \<Rightarrow> string" where
  "substring03 s = take 3 s"

fun indexOf :: "string list \<Rightarrow> string \<Rightarrow> nat option" where
  "indexOf [] x = None"
| "indexOf (y # ys) x = (if y = x then Some 0 else map_option Suc (indexOf ys x))"

text \<open>\<open>xs[i]\<close> on an array of strings: \<open>undefined\<close> beyond the end.\<close>

definition arrayGet :: "string list \<Rightarrow> nat \<Rightarrow> jsval" where
  "arrayGet xs i = (if i < length xs then Str (xs ! i) else Undefined)"

text \<open>
  \<open>['All', ...Array.from(set).sort()]\<close>: a \<open>Set\<close> keeps the first occurrence of each
  string in insertion order, and the default sort compares code units.
\<close>

fun setAdd :: "string list \<Rightarrow> string \<Rightarrow> string list" where
  "setAdd xs x = (if x \<in> set xs then xs else xs @ [x])"

definition setFrom :: "string list \<Rightarrow> string list" where
  "setFrom xs = foldl setAdd [] xs"

definition optionList :: "string list \<Rightarrow> string list" where
  "optionList xs = ''All'' # sort (setFrom xs)"

subsection \<open>Dates\<close>

definition MONTH_NAMES :: "string list" where
  "MONTH_NAMES = [''JAN'', ''FEB'', ''MAR'', ''APR'', ''MAY'', ''JUN'',
                  ''JUL'', ''AUG'', ''SEP'', ''OCT'', ''NOV'', ''DEC'']"

text \<open>\<open>value instanceof Date && !isNaN(value.getTime())\<close>.\<close>

definition isValidDate :: "jsval \<Rightarrow> bool" where
  "isValidDate v = (case v of DateV d \<Rightarrow> (case d of InvalidDate \<Rightarrow> False | UTCDate y m r \<Rightarrow> True) | _ \<Rightarrow> False)"

text \<open>\<open>MONTH_NAMES[d.getUTCMonth()]\<close> and \<open>d.getUTCFullYear()\<close> of a \<open>Date\<close> object.\<close>

definition monthNameOf :: "jsdate \<Rightarrow> jsval" where
  "monthNameOf d = (case d of InvalidDate \<Rightarrow> Undefined | UTCDate y m r \<Rightarrow> arrayGet MONTH_NAMES m)"

definition fullYearOf :: "jsdate \<Rightarrow> jsval" where
  "fullYearOf d = (case d of InvalidDate \<Rightarrow> Num NaN | UTCDate y m r \<Rightarrow> Num (Fin (of_int y)))"

text \<open>
  \<open>getMonthName\<close> and \<open>getYear\<close> of FleetManagement.tsx, which are \<open>getMonthNameFromDate\<close>
  and \<open>getYearFromDate\<close> of DriverOperatorView.tsx: \<open>null\<close> unless the value is a valid date.
\<close>

definition getMonthName :: "jsval \<Rightarrow> jsval" where
  "getMonthName v = (case v of DateV d \<Rightarrow> (if isValidDate v then monthNameOf d else Null) | _ \<Rightarrow> Null)"

definition getYear :: "jsval \<Rightarrow> jsval" where
  "getYear v = (case v of DateV d \<Rightarrow> (if isValidDate v then fullYearOf d else Null) | _ \<Rightarrow> Null)"

text \<open>The value held by a \<open>Date\<close> cell, for the branches that have checked \<open>isValidDate\<close>.\<close>

definition dateOf :: "jsval \<Rightarrow> jsdate option" where
  "dateOf v = (case v of DateV d \<Rightarrow> Some d | _ \<Rightarrow> None)"

text \<open>
  \<open>parseInt(s, 10)\<close>: leading white space, an optional sign, then the longest run of
  decimal digits; \<open>NaN\<close> (here \<open>None\<close>) when there is no digit.
\<close>

definition isDigit :: "char \<Rightarrow> bool" where
  "isDigit c = (CHR ''0'' \<le> c \<and> c \<le> CHR ''9'')"

definition digitsValue :: "string \<Rightarrow> nat" where
  "digitsValue ds = foldl (\<lambda>acc c. 10 * acc + (of_char c - 48)) 0 ds"

definition parseInt10 :: "string \<Rightarrow> int option" where
  "parseInt10 s =
     (let t = dropWhile isWhiteSpace s;
          negative = (case t of [] \<Rightarrow> False | c # r \<Rightarrow> c = CHR ''-'');
          u = (case t of [] \<Rightarrow> [] | c # r \<Rightarrow> if c = CHR ''+'' \<or> c = CHR ''-'' then r else t);
          ds = takeWhile isDigit u
      in if ds = [] then None
         else Some (if negative then - int (digitsValue ds) else int (digitsValue ds)))"

text \<open>
  \<open>new Date(Date.UTC(year, monthIndex, day))\<close> for a month index below 12 and a day of
  that month: a year from 0 to 99 means 1900 + year, and an instant more than \<open>10^8\<close> days
  from the epoch (before 20 April -271821 or after 13 September 275760) is an invalid date.
\<close>

definition Date_UTC :: "int \<Rightarrow> nat \<Rightarrow> nat \<Rightarrow> jsdate" where
  "Date_UTC yearNum monthIndex day =
     (let yr = (if 0 \<le> yearNum \<and> yearNum \<le> 99 then 1900 + yearNum else yearNum);
          notBefore = (- 271821 < yr \<or> (yr = - 271821 \<and> (3 < monthIndex \<or> (monthIndex = 3 \<and> 20 \<le> day))));
          notAfter = (yr < 275760 \<or> (yr = 275760 \<and> (monthIndex < 8 \<or> (monthIndex = 8 \<and> day \<le> 13))))
      in if notBefore \<and> notAfter then UTCDate yr monthIndex ((day - 1) * 86400000) else InvalidDate)"

section \<open>Arithmetic\<close>

text \<open>
  \<open>ToNumber\<close>: the conversion of a string and the time value of a valid date are the
  host's.
\<close>

definition toNumber :: "host \<Rightarrow> jsval \<Rightarrow> jsnum" where
  "toNumber H v = (case v of
       Undefined \<Rightarrow> NaN
     | Null \<Rightarrow> Fin 0
     | Bool b \<Rightarrow> Fin (if b then 1 else 0)
     | Num n \<Rightarrow> n
     | Str s \<Rightarrow> stringToNumber H s
     | DateV d \<Rightarrow> (case d of InvalidDate \<Rightarrow> NaN | UTCDate y m r \<Rightarrow> dateValueOf H d))"

subsection \<open>Rounding to double precision\<close>

definition pow2 :: "int \<Rightarrow> rat" where
  "pow2 k = (if 0 \<le> k then 2 ^ nat k else 1 / 2 ^ nat (- k))"

text \<open>The exponent \<open>k\<close> of a positive rational \<open>a\<close>: \<open>2^k \<le> a < 2^(k+1)\<close>.\<close>

definition binade :: "rat \<Rightarrow> int" where
  "binade a = (if 1 \<le> a then bitlen \<lfloor>a\<rfloor> - 1 else - bitlen (\<lceil>1 / a\<rceil> - 1))"

definition roundHalfEven :: "rat \<Rightarrow> int" where
  "roundHalfEven x =
     (let f = \<lfloor>x\<rfloor>; d = x - of_int f
      in if d < 1 / 2 then f else if 1 / 2 < d then f + 1 else if even f then f else f + 1)"

text \<open>
  The double nearest to a rational: a significand of 53 bits, the exponent of the last bit
  not below -1074, ties to the even significand, and an infinity from \<open>2^1024\<close> on.
\<close>

definition toDouble :: "rat \<Rightarrow> jsnum" where
  "toDouble q =
     (if q = 0 then Fin 0
      else (let a = \<bar>q\<bar>;
                e = max (binade a - 52) (- 1074);
                r = of_int (roundHalfEven (a / pow2 e)) * pow2 e
            in if pow2 1024 \<le> r then (if 0 < q then PosInf else NegInf)
               else Fin (if 0 < q then r else - r)))"

subsection \<open>Operators\<close>

fun num_neg :: "jsnum \<Rightarrow> jsnum" where
  "num_neg (Fin q) = Fin (- q)"
| "num_neg NaN = NaN"
| "num_neg PosInf = NegInf"
| "num_neg NegInf = PosInf"

fun num_add :: "jsnum \<Rightarrow> jsnum \<Rightarrow> jsnum" where
  "num_add (Fin x) (Fin y) = toDouble (x + y)"
| "num_add NaN b = NaN"
| "num_add a NaN = NaN"
| "num_add PosInf NegInf = NaN"
| "num_add NegInf PosInf = NaN"
| "num_add PosInf b = PosInf"
| "num_add a PosInf = PosInf"
| "num_add NegInf b = NegInf"
| "num_add a NegInf = NegInf"

fun num_sign :: "jsnum \<Rightarrow> int" where
  "num_sign (Fin q) = (if 0 < q then 1 else if q < 0 then - 1 else 0)"
| "num_sign NaN = 0"
| "num_sign PosInf = 1"
| "num_sign NegInf = - 1"

fun num_mul :: "jsnum \<Rightarrow> jsnum \<Rightarrow> jsnum" where
  "num_mul (Fin x) (Fin y) = toDouble (x * y)"
| "num_mul NaN b = NaN"
| "num_mul a NaN = NaN"
| "num_mul a b = (if num_sign a * num_sign b = 0 then NaN
                  else if 0 < num_sign a * num_sign b then PosInf else NegInf)"

text \<open>Division; a zero divisor counts as positive zero.\<close>

fun num_div :: "jsnum \<Rightarrow> jsnum \<Rightarrow> jsnum" where
  "num_div (Fin x) (Fin y) =
     (if y \<noteq> 0 then toDouble (x / y) else if 0 < x then PosInf else if x < 0 then NegInf else NaN)"
| "num_div NaN b = NaN"
| "num_div a NaN = NaN"
| "num_div (Fin x) b = Fin 0"
| "num_div a (Fin y) = (if (a = PosInf) = (0 \<le> y) then PosInf else NegInf)"
| "num_div a b = NaN"

fun num_gt :: "jsnum \<Rightarrow> jsnum \<Rightarrow> bool" where
  "num_gt (Fin x) (Fin y) = (y < x)"
| "num_gt NaN b = False"
| "num_gt a NaN = False"
| "num_gt PosInf b = (b \<noteq> PosInf)"
| "num_gt a NegInf = (a \<noteq> NegInf)"
| "num_gt a b = False"

text \<open>
  \<open>a + b\<close>: a date operand is first rendered as a string; if either operand is then a
  string the result is the concatenation, otherwise the numeric sum.
\<close>

definition toPrimitive :: "host \<Rightarrow> jsval \<Rightarrow> jsval" where
  "toPrimitive H v = (case v of DateV d \<Rightarrow> Str (toStr H v) | _ \<Rightarrow> v)"

definition isString :: "jsval \<Rightarrow> bool" where
  "isString v = (case v of Str s \<Rightarrow> True | _ \<Rightarrow> False)"

definition js_add :: "host \<Rightarrow> jsval \<Rightarrow> jsval \<Rightarrow> jsval" where
  "js_add H a b =
     (let pa = toPrimitive H a; pb = toPrimitive H b
      in if isString pa \<or> isString pb then Str (toStr H pa @ toStr H pb)
         else Num (num_add (toNumber H pa) (toNumber H pb)))"

definition js_sub :: "host \<Rightarrow> jsval \<Rightarrow> jsval \<Rightarrow> jsval" where
  "js_sub H a b = Num (num_add (toNumber H a) (num_neg (toNumber H b)))"

definition js_mul :: "host \<Rightarrow> jsval \<Rightarrow> jsval \<Rightarrow> jsval" where
  "js_mul H a b = Num (num_mul (toNumber H a) (toNumber H b))"

definition js_div :: "host \<Rightarrow> jsval \<Rightarrow> jsval \<Rightarrow> jsval" where
  "js_div H a b = Num (num_div (toNumber H a) (toNumber H b))"

text \<open>\<open>a > b\<close>: two strings compare by code units, anything else numerically.\<close>

definition js_gt :: "host \<Rightarrow> jsval \<Rightarrow> jsval \<Rightarrow> bool" where
  "js_gt H a b = (case a of
       Str s \<Rightarrow> (case b of Str t \<Rightarrow> t < s | _ \<Rightarrow> num_gt (toNumber H a) (toNumber H b))
     | _ \<Rightarrow> num_gt (toNumber H a) (toNumber H b))"

text \<open>
  \<open>new Set(values).size\<close>: primitives are equal when they are the same value, every
  \<open>Date\<close> object is an element of its own.
\<close>

definition isDateObject :: "jsval \<Rightarrow> bool" where
  "isDateObject v = (case v of DateV d \<Rightarrow> True | _ \<Rightarrow> False)"

definition setSize :: "jsval list \<Rightarrow> nat" where
  "setSize vs = length (remdups (filter (\<lambda>v. \<not> isDateObject v) vs)) + length (filter isDateObject vs)"

text \<open>
  \<open>xs.sort(cmp)\<close>: the sort is stable, and for a comparator that orders consistently
  every stable sort returns the list built here by insertion.
\<close>

fun insertCmp :: "(string \<Rightarrow> string \<Rightarrow> int) \<Rightarrow> string \<Rightarrow> string list \<Rightarrow> string list" where
  "insertCmp cmp x [] = [x]"
| "insertCmp cmp x (y # ys) = (if cmp x y \<le> 0 then x # y # ys else y # insertCmp cmp x ys)"

definition sortCmp :: "(string \<Rightarrow> string \<Rightarrow> int) \<Rightarrow> string list \<Rightarrow> string list" where
  "sortCmp cmp xs = foldr (insertCmp cmp) xs []"

section \<open>View filter state\<close>

text \<open>
  \<open>SharedFilterState\<close> of the application shell, and the local \<open>filters\<close> state of the
  views: Fleet Management has the three common dimensions, the other views add one.
\<close>

record SharedFilterState =
  month :: string
  year :: string
  businessUnit :: string
  internalType :: string
  designation :: string

record view_filters =
  Month :: string
  Year :: string
  Business_Units :: string

record jc_filters = view_filters +
  Cluster :: string

record if_filters = view_filters +
  Fleet_Category :: string

record do_filters = view_filters +
  Designation :: string

section \<open>Dashboard.tsx\<close>

definition getBusinessUnit :: "row \<Rightarrow> jsval" where
  "getBusinessUnit item =
     js_nullish (js_nullish (js_nullish (js_nullish (item ''BUSINESS UNITS'') (item ''Business Units''))
       (item ''BUSINESS UNIT'')) (item ''Business Unit'')) (item ''Client Company Name'')"

definition getItemDate :: "host \<Rightarrow> row \<Rightarrow> jsdate option" where
  "getItemDate H item =
     (if isValidDate (item ''End Date'') then dateOf (item ''End Date'')
      else if isValidDate (item ''Month'') then dateOf (item ''Month'')
      else if isValidDate (item ''DATE'') then dateOf (item ''DATE'')
      else if isValidDate (item ''Date:'') then dateOf (item ''Date:'')
      else
        (let monthStr = js_nullish (item ''MONTH'') (item ''Month'');
             yearVal = js_nullish (item ''YEAR'') (item ''Year'')
         in case monthStr of
              Str ms \<Rightarrow>
                if yearVal \<noteq> Null \<and> yearVal \<noteq> Undefined then
                  (case parseInt10 (toStr H yearVal) of
                     None \<Rightarrow> None
                   | Some yearNum \<Rightarrow>
                       (case indexOf MONTH_NAMES (substring03 (toUpperCase (toStr H monthStr))) of
                          None \<Rightarrow> None
                        | Some monthIndex \<Rightarrow> Some (Date_UTC yearNum monthIndex 15)))
                else None
            | _ \<Rightarrow> None))"

definition filterByBUAndDate :: "host \<Rightarrow> SharedFilterState \<Rightarrow> row \<Rightarrow> bool" where
  "filterByBUAndDate H filters item =
     (let buMatch = (businessUnit filters = ''All'' \<or> getBusinessUnit item = Str (businessUnit filters))
      in if \<not> buMatch then False
         else if month filters = ''All'' \<and> year filters = ''All'' then True
         else (case getItemDate H item of
                 None \<Rightarrow> False
               | Some itemDate \<Rightarrow>
                   (let itemMonthName = monthNameOf itemDate;
                        itemYear = fullYearOf itemDate;
                        monthMatch = (month filters = ''All'' \<or> itemMonthName = Str (month filters));
                        yearMatch = (year filters = ''All'' \<or> toStr H itemYear = year filters)
                    in monthMatch \<and> yearMatch)))"

text \<open>
  \<open>filterJobCardByBUAndDate\<close>: the Job Card sheet is matched on its own Month and Year
  columns.
\<close>

definition filterJobCardByBUAndDate :: "host \<Rightarrow> SharedFilterState \<Rightarrow> row \<Rightarrow> bool" where
  "filterJobCardByBUAndDate H filters item =
     (let buMatch = (businessUnit filters = ''All'' \<or> getBusinessUnit item = Str (businessUnit filters))
      in if \<not> buMatch then False
         else if month filters = ''All'' \<and> year filters = ''All'' then True
         else (let itemMonthName = substring03 (toUpperCase (toStr H (js_or (item ''Month'') (Str []))));
                   itemYear = toStr H (js_or (item ''Year'') (Str []))
               in if itemMonthName = [] \<or> itemYear = [] then False
                  else (let monthMatch = (month filters = ''All'' \<or> itemMonthName = month filters);
                            yearMatch = (year filters = ''All'' \<or> itemYear = year filters)
                        in monthMatch \<and> yearMatch)))"

section \<open>FleetManagement.tsx\<close>

definition FleetManagement_match :: "host \<Rightarrow> view_filters \<Rightarrow> row \<Rightarrow> bool" where
  "FleetManagement_match H filters item =
     (let itemMonthName = getMonthName (item ''Month'');
          itemYear = getYear (item ''Month'');
          monthMatch = (Month filters = ''All'' \<or> itemMonthName = Str (Month filters));
          yearMatch = (Year filters = ''All'' \<or> toStr H itemYear = Year filters);
          businessUnitMatch = (Business_Units filters = ''All''
                               \<or> toStr H (item ''Business Units'') = Business_Units filters)
      in monthMatch \<and> yearMatch \<and> businessUnitMatch)"

definition FleetManagement_filteredData :: "host \<Rightarrow> row list \<Rightarrow> view_filters \<Rightarrow> row list" where
  "FleetManagement_filteredData H data filters = filter (FleetManagement_match H filters) data"

section \<open>JobCardView.tsx\<close>

definition JobCardView_match :: "host \<Rightarrow> jc_filters \<Rightarrow> string \<Rightarrow> row \<Rightarrow> bool" where
  "JobCardView_match H filters searchFilter item =
     (let lowercasedSearchFilter = trim (toLowerCase searchFilter);
          itemMonthName = substring03 (toUpperCase (toStr H (js_or (item ''Month'') (Str []))));
          itemYear = toStr H (js_or (item ''Year'') (Str []));
          monthMatch = (Month filters = ''All'' \<or> itemMonthName = Month filters);
          yearMatch = (Year filters = ''All'' \<or> itemYear = Year filters);
          businessUnitMatch = (Business_Units filters = ''All''
                               \<or> toStr H (item ''Business Units'') = Business_Units filters);
          clusterMatch = (Cluster filters = ''All'' \<or> toStr H (item ''Cluster'') = Cluster filters);
          searchKey = js_nullish (item ''Reg / Fleet No:'') (item ''Plate #'');
          searchMatch = (lowercasedSearchFilter = []
                         \<or> str_includes (toLowerCase (toStr H searchKey)) lowercasedSearchFilter)
      in monthMatch \<and> yearMatch \<and> businessUnitMatch \<and> searchMatch \<and> clusterMatch)"

definition JobCardView_filteredData :: "host \<Rightarrow> row list \<Rightarrow> jc_filters \<Rightarrow> string \<Rightarrow> row list" where
  "JobCardView_filteredData H data filters searchFilter =
     filter (JobCardView_match H filters searchFilter) data"

section \<open>Dashboard.tsx: metrics\<close>

text \<open>\<open>ExcelData\<close>: the parsed workbook, one row collection per sheet.\<close>

record ExcelData =
  Dashboard_sheet :: "row list"
  Fleet_Management :: "row list"
  Driver_Operator :: "row list"
  Job_Card :: "row list"
  Internal_Fleets :: "row list"
  External_Fleets :: "row list"

text \<open>The members of \<open>filtered\<close> that the metrics below read.\<close>

definition filtered_fleetMgmt :: "host \<Rightarrow> ExcelData \<Rightarrow> SharedFilterState \<Rightarrow> row list" where
  "filtered_fleetMgmt H allData filters = filter (filterByBUAndDate H filters) (Fleet_Management allData)"

definition filtered_jobCard :: "host \<Rightarrow> ExcelData \<Rightarrow> SharedFilterState \<Rightarrow> row list" where
  "filtered_jobCard H allData filters = filter (filterJobCardByBUAndDate H filters) (Job_Card allData)"

definition filtered_external :: "host \<Rightarrow> ExcelData \<Rightarrow> SharedFilterState \<Rightarrow> row list" where
  "filtered_external H allData filters = filter (filterByBUAndDate H filters) (External_Fleets allData)"

definition jobCardRevenue :: "host \<Rightarrow> ExcelData \<Rightarrow> SharedFilterState \<Rightarrow> jsval" where
  "jobCardRevenue H allData filters =
     foldl (\<lambda>sum i.
              (let totalAmount = js_or (js_or (i ''Total amount with Service Charge'')
                                              (i ''TOTAL AMOUNT WITH SERVICE CHARGE'')) (Num (Fin 0))
               in js_add H sum totalAmount))
       (Num (Fin 0)) (filtered_jobCard H allData filters)"

definition jobCardProfit :: "host \<Rightarrow> ExcelData \<Rightarrow> SharedFilterState \<Rightarrow> jsval" where
  "jobCardProfit H allData filters =
     foldl (\<lambda>sum i. js_add H sum (js_or (i ''Profit'') (Num (Fin 0))))
       (Num (Fin 0)) (filtered_jobCard H allData filters)"

definition jobCardCost :: "host \<Rightarrow> ExcelData \<Rightarrow> SharedFilterState \<Rightarrow> jsval" where
  "jobCardCost H allData filters =
     js_sub H (jobCardRevenue H allData filters) (jobCardProfit H allData filters)"

definition fleetManagementRevenue :: "host \<Rightarrow> ExcelData \<Rightarrow> SharedFilterState \<Rightarrow> jsval" where
  "fleetManagementRevenue H allData filters =
     foldl (\<lambda>sum i. js_add H sum (js_or (i ''Splited Amount'') (Num (Fin 0))))
       (Num (Fin 0)) (filtered_fleetMgmt H allData filters)"

text \<open>The predicate of \<open>monthFilteredDataForPercentage\<close>.\<close>

definition monthFilterForPercentage :: "host \<Rightarrow> SharedFilterState \<Rightarrow> row \<Rightarrow> bool" where
  "monthFilterForPercentage H filters item =
     (case getItemDate H item of
        None \<Rightarrow> False
      | Some itemDate \<Rightarrow>
          (let itemMonthName = monthNameOf itemDate;
               itemYear = fullYearOf itemDate;
               monthMatch = (itemMonthName = Str (month filters));
               yearMatch = (year filters = ''All'' \<or> toStr H itemYear = year filters)
           in monthMatch \<and> yearMatch))"

definition totalMonthAmount :: "host \<Rightarrow> ExcelData \<Rightarrow> SharedFilterState \<Rightarrow> jsval" where
  "totalMonthAmount H allData filters =
     foldl (\<lambda>sum i. js_add H sum (js_or (i ''Splited Amount'') (Num (Fin 0))))
       (Num (Fin 0)) (filter (monthFilterForPercentage H filters) (Fleet_Management allData))"

definition fleetManagementPercentage :: "host \<Rightarrow> ExcelData \<Rightarrow> SharedFilterState \<Rightarrow> jsval" where
  "fleetManagementPercentage H allData filters =
     (if month filters \<noteq> ''All'' \<and> businessUnit filters \<noteq> ''All'' then
        (if js_gt H (totalMonthAmount H allData filters) (Num (Fin 0))
         then js_mul H (js_div H (fleetManagementRevenue H allData filters)
                                 (totalMonthAmount H allData filters)) (Num (Fin 100))
         else Num (Fin 0))
      else Num (Fin 0))"

text \<open>\<open>counts.externalInvoice\<close>.\<close>

definition externalInvoice :: "host \<Rightarrow> ExcelData \<Rightarrow> SharedFilterState \<Rightarrow> nat" where
  "externalInvoice H allData filters =
     setSize (map (\<lambda>i. i ''Invoice Number:'') (filtered_external H allData filters))"

section \<open>DataView.tsx: the invoice count of the External Fleets view\<close>

text \<open>
  \<open>uniqueInvoiceCount\<close> of \<open>summaryData\<close>, over the rows the view has filtered: an invoice
  number is added to the set only if it is neither \<open>null\<close> nor \<open>undefined\<close> nor blank.
\<close>

definition DataView_uniqueInvoiceCount :: "host \<Rightarrow> row list \<Rightarrow> nat" where
  "DataView_uniqueInvoiceCount H filteredData =
     setSize (filter (\<lambda>invoiceNo. invoiceNo \<noteq> Null \<and> invoiceNo \<noteq> Undefined
                                   \<and> trim (toStr H invoiceNo) \<noteq> [])
                (map (\<lambda>item. item ''Invoice Number:'') filteredData))"

section \<open>FleetManagement.tsx: options, reset effect and summary\<close>

definition FleetManagement_dateMatch :: "host \<Rightarrow> view_filters \<Rightarrow> row \<Rightarrow> bool" where
  "FleetManagement_dateMatch H filters item =
     (let itemMonthName = getMonthName (item ''Month'');
          itemYear = getYear (item ''Month'');
          monthMatch = (Month filters = ''All'' \<or> itemMonthName = Str (Month filters));
          yearMatch = (Year filters = ''All'' \<or> toStr H itemYear = Year filters)
      in monthMatch \<and> yearMatch)"

text \<open>\<open>dynamicOptions.businessUnits\<close>.\<close>

definition FleetManagement_businessUnits :: "host \<Rightarrow> row list \<Rightarrow> view_filters \<Rightarrow> string list" where
  "FleetManagement_businessUnits H data filters =
     (let dateFilteredData = filter (FleetManagement_dateMatch H filters) data
      in optionList (map (\<lambda>item. toStr H (item ''Business Units''))
                       (filter (\<lambda>item. truthy (item ''Business Units'')) dateFilteredData)))"

text \<open>
  The effect that follows a render: it reads the filters and the options of that render
  and replaces the state.
\<close>

definition FleetManagement_effect :: "host \<Rightarrow> row list \<Rightarrow> view_filters \<Rightarrow> view_filters" where
  "FleetManagement_effect H data filters =
     (if Business_Units filters \<noteq> ''All''
         \<and> Business_Units filters \<notin> set (FleetManagement_businessUnits H data filters)
      then filters\<lparr>Business_Units := ''All''\<rparr> else filters)"

definition FleetManagement_totalAmount :: "host \<Rightarrow> row list \<Rightarrow> view_filters \<Rightarrow> jsval" where
  "FleetManagement_totalAmount H data filters =
     foldl (\<lambda>acc item. js_add H acc (js_or (item ''Splited Amount'') (Num (Fin 0))))
       (Num (Fin 0)) (FleetManagement_filteredData H data filters)"

text \<open>The predicate of \<open>monthFilteredData\<close> in \<open>summaryData\<close>.\<close>

definition FleetManagement_monthFilter :: "host \<Rightarrow> view_filters \<Rightarrow> row \<Rightarrow> bool" where
  "FleetManagement_monthFilter H filters item =
     (let itemMonthName = getMonthName (item ''Month'');
          itemYear = getYear (item ''Month'');
          monthMatch = (itemMonthName = Str (Month filters));
          yearMatch = (Year filters = ''All'' \<or> toStr H itemYear = Year filters)
      in monthMatch \<and> yearMatch)"

definition FleetManagement_totalMonthAmount :: "host \<Rightarrow> row list \<Rightarrow> view_filters \<Rightarrow> jsval" where
  "FleetManagement_totalMonthAmount H data filters =
     foldl (\<lambda>acc item. js_add H acc (js_or (item ''Splited Amount'') (Num (Fin 0))))
       (Num (Fin 0)) (filter (FleetManagement_monthFilter H filters) data)"

definition FleetManagement_percentage :: "host \<Rightarrow> row list \<Rightarrow> view_filters \<Rightarrow> jsval" where
  "FleetManagement_percentage H data filters =
     (if Month filters \<noteq> ''All'' then
        (if Business_Units filters \<noteq> ''All''
            \<and> js_gt H (FleetManagement_totalMonthAmount H data filters) (Num (Fin 0))
         then js_mul H (js_div H (FleetManagement_totalAmount H data filters)
                                 (FleetManagement_totalMonthAmount H data filters)) (Num (Fin 100))
         else Num (Fin 0))
      else Num (Fin 0))"

section \<open>JobCardView.tsx: options, reset effects and summary\<close>

definition JobCardView_baseMatch :: "host \<Rightarrow> jc_filters \<Rightarrow> string \<Rightarrow> row \<Rightarrow> bool" where
  "JobCardView_baseMatch H filters searchFilter item =
     (let lowercasedSearchFilter = trim (toLowerCase searchFilter);
          itemMonthName = substring03 (toUpperCase (toStr H (js_or (item ''Month'') (Str []))));
          itemYear = toStr H (js_or (item ''Year'') (Str []));
          monthMatch = (Month filters = ''All'' \<or> itemMonthName = Month filters);
          yearMatch = (Year filters = ''All'' \<or> itemYear = Year filters);
          searchKey = js_nullish (item ''Reg / Fleet No:'') (item ''Plate #'');
          searchMatch = (lowercasedSearchFilter = []
                         \<or> str_includes (toLowerCase (toStr H searchKey)) lowercasedSearchFilter)
      in monthMatch \<and> yearMatch \<and> searchMatch)"

definition JobCardView_businessUnits :: "host \<Rightarrow> row list \<Rightarrow> jc_filters \<Rightarrow> string \<Rightarrow> string list" where
  "JobCardView_businessUnits H data filters searchFilter =
     (let baseFilteredData = filter (JobCardView_baseMatch H filters searchFilter) data;
          buData = filter (\<lambda>item. Cluster filters = ''All'' \<or> toStr H (item ''Cluster'') = Cluster filters)
                     baseFilteredData
      in optionList (map (\<lambda>item. toStr H (item ''Business Units''))
                       (filter (\<lambda>item. truthy (item ''Business Units'')) buData)))"

definition JobCardView_clusters :: "host \<Rightarrow> row list \<Rightarrow> jc_filters \<Rightarrow> string \<Rightarrow> string list" where
  "JobCardView_clusters H data filters searchFilter =
     (let baseFilteredData = filter (JobCardView_baseMatch H filters searchFilter) data;
          clusterData = filter (\<lambda>item. Business_Units filters = ''All''
                                        \<or> toStr H (item ''Business Units'') = Business_Units filters)
                          baseFilteredData
      in optionList (map (\<lambda>item. toStr H (item ''Cluster''))
                       (filter (\<lambda>item. truthy (item ''Cluster'')) clusterData)))"

text \<open>
  The two effects that follow a render.  Both conditions read the filters and the options
  of that render; the updates are applied one after the other to the state.
\<close>

definition JobCardView_effects :: "host \<Rightarrow> row list \<Rightarrow> jc_filters \<Rightarrow> string \<Rightarrow> jc_filters" where
  "JobCardView_effects H data filters searchFilter =
     (let resetBU = (Business_Units filters \<noteq> ''All''
                     \<and> Business_Units filters \<notin> set (JobCardView_businessUnits H data filters searchFilter));
          resetCluster = (Cluster filters \<noteq> ''All''
                          \<and> Cluster filters \<notin> set (JobCardView_clusters H data filters searchFilter));
          prev1 = (if resetBU then filters\<lparr>Business_Units := ''All''\<rparr> else filters)
      in if resetCluster then prev1\<lparr>Cluster := ''All''\<rparr> else prev1)"

definition JobCardView_totalAmount :: "host \<Rightarrow> row list \<Rightarrow> jsval" where
  "JobCardView_totalAmount H filteredData =
     foldl (\<lambda>acc item. js_add H acc (js_or (js_or (item ''Total amount with Service Charge'')
                                                   (item ''Total Amount w%'')) (Num (Fin 0))))
       (Num (Fin 0)) filteredData"

definition JobCardView_averageAmount :: "host \<Rightarrow> row list \<Rightarrow> jsval" where
  "JobCardView_averageAmount H filteredData =
     (let totalAmount = JobCardView_totalAmount H filteredData;
          recordCount = length filteredData
      in if 0 < recordCount then js_div H totalAmount (Num (Fin (of_nat recordCount))) else Num (Fin 0))"

section \<open>InternalFleetsView.tsx\<close>

definition InternalFleetsView_baseMatch :: "host \<Rightarrow> if_filters \<Rightarrow> string \<Rightarrow> row \<Rightarrow> bool" where
  "InternalFleetsView_baseMatch H filters searchFilter item =
     (let lowercasedSearchFilter = trim (toLowerCase searchFilter);
          itemMonthName = substring03 (toUpperCase (toStr H (js_or (item ''MONTH'') (Str []))));
          itemYear = toStr H (js_or (item ''YEAR'') (Str []));
          monthMatch = (Month filters = ''All'' \<or> itemMonthName = Month filters);
          yearMatch = (Year filters = ''All'' \<or> itemYear = Year filters);
          searchMatch = (lowercasedSearchFilter = []
                         \<or> str_includes (toLowerCase (toStr H (item ''Reg No:''))) lowercasedSearchFilter)
      in monthMatch \<and> yearMatch \<and> searchMatch)"

definition InternalFleetsView_businessUnits :: "host \<Rightarrow> row list \<Rightarrow> if_filters \<Rightarrow> string \<Rightarrow> string list" where
  "InternalFleetsView_businessUnits H data filters searchFilter =
     (let baseFilteredData = filter (InternalFleetsView_baseMatch H filters searchFilter) data;
          buData = filter (\<lambda>item. Fleet_Category filters = ''All''
                                   \<or> toStr H (item ''Fleet_Category'') = Fleet_Category filters)
                     baseFilteredData
      in optionList (map (\<lambda>item. toStr H (item ''Business Units''))
                       (filter (\<lambda>item. truthy (item ''Business Units'')) buData)))"

definition InternalFleetsView_fleetCategories :: "host \<Rightarrow> row list \<Rightarrow> if_filters \<Rightarrow> string \<Rightarrow> string list" where
  "InternalFleetsView_fleetCategories H data filters searchFilter =
     (let baseFilteredData = filter (InternalFleetsView_baseMatch H filters searchFilter) data;
          fcData = filter (\<lambda>item. Business_Units filters = ''All''
                                   \<or> toStr H (item ''Business Units'') = Business_Units filters)
                     baseFilteredData
      in optionList (map (\<lambda>item. toStr H (item ''Fleet_Category''))
                       (filter (\<lambda>item. truthy (item ''Fleet_Category'')) fcData)))"

definition InternalFleetsView_effects :: "host \<Rightarrow> row list \<Rightarrow> if_filters \<Rightarrow> string \<Rightarrow> if_filters" where
  "InternalFleetsView_effects H data filters searchFilter =
     (let resetBU = (Business_Units filters \<noteq> ''All''
                     \<and> Business_Units filters \<notin> set (InternalFleetsView_businessUnits H data filters searchFilter));
          resetFC = (Fleet_Category filters \<noteq> ''All''
                     \<and> Fleet_Category filters \<notin> set (InternalFleetsView_fleetCategories H data filters searchFilter));
          prev1 = (if resetBU then filters\<lparr>Business_Units := ''All''\<rparr> else filters)
      in if resetFC then prev1\<lparr>Fleet_Category := ''All''\<rparr> else prev1)"

text \<open>
  \<open>filteredData\<close>.  Its month, year and search conditions are those of
  \<open>baseFilteredData\<close>, and \<open>sharedInternalType\<close> is \<open>sharedFilters.internalType\<close>.
\<close>

definition InternalFleetsView_match :: "host \<Rightarrow> if_filters \<Rightarrow> string \<Rightarrow> string \<Rightarrow> row \<Rightarrow> bool" where
  "InternalFleetsView_match H filters searchFilter sharedInternalType item =
     (let businessUnitMatch = (Business_Units filters = ''All''
                               \<or> toStr H (item ''Business Units'') = Business_Units filters);
          fleetCategoryMatch = (Fleet_Category filters = ''All''
                                \<or> toStr H (item ''Fleet_Category'') = Fleet_Category filters);
          internalTypeMatch =
            (if sharedInternalType = ''Rental'' then js_gt H (js_nullish (item ''R-Revenue'') (Num (Fin 0))) (Num (Fin 0))
             else if sharedInternalType = ''Fuel'' then js_gt H (js_nullish (item ''F-Revenue'') (Num (Fin 0))) (Num (Fin 0))
             else True)
      in InternalFleetsView_baseMatch H filters searchFilter item
         \<and> businessUnitMatch \<and> fleetCategoryMatch \<and> internalTypeMatch)"

definition InternalFleetsView_filteredData ::
  "host \<Rightarrow> row list \<Rightarrow> if_filters \<Rightarrow> string \<Rightarrow> string \<Rightarrow> row list" where
  "InternalFleetsView_filteredData H data filters searchFilter sharedInternalType =
     filter (InternalFleetsView_match H filters searchFilter sharedInternalType) data"

definition InternalFleetsView_totalAmount :: "host \<Rightarrow> row list \<Rightarrow> jsval" where
  "InternalFleetsView_totalAmount H filteredData =
     foldl (\<lambda>acc item. js_add H (js_add H acc (js_or (item ''F-Revenue'') (Num (Fin 0))))
                                 (js_or (item ''R-Revenue'') (Num (Fin 0))))
       (Num (Fin 0)) filteredData"

definition InternalFleetsView_averageAmount :: "host \<Rightarrow> row list \<Rightarrow> jsval" where
  "InternalFleetsView_averageAmount H filteredData =
     (let totalAmount = InternalFleetsView_totalAmount H filteredData;
          recordCount = length filteredData
      in if 0 < recordCount then js_div H totalAmount (Num (Fin (of_nat recordCount))) else Num (Fin 0))"

section \<open>DriverOperatorView.tsx\<close>

definition getDesignation :: "row \<Rightarrow> jsval" where
  "getDesignation item = js_nullish (item ''DESIGNATION'') (item ''Designation'')"

text \<open>
  The month and the year the view reads from a row: the text columns when they are truthy,
  the End Date column otherwise.
\<close>

definition DriverOperator_itemMonthName :: "host \<Rightarrow> row \<Rightarrow> jsval" where
  "DriverOperator_itemMonthName H item =
     (if truthy (item ''Month'') then Str (substring03 (toUpperCase (toStr H (item ''Month''))))
      else getMonthName (item ''End Date''))"

definition DriverOperator_itemYear :: "host \<Rightarrow> row \<Rightarrow> string" where
  "DriverOperator_itemYear H item =
     (if truthy (item ''Year'') then toStr H (item ''Year'')
      else toStr H (js_or (getYear (item ''End Date'')) (Str [])))"

definition DriverOperator_baseMatch :: "host \<Rightarrow> do_filters \<Rightarrow> string \<Rightarrow> row \<Rightarrow> bool" where
  "DriverOperator_baseMatch H filters sapFilter item =
     (let lowercasedSapFilter = trim (toLowerCase sapFilter);
          itemMonthName = DriverOperator_itemMonthName H item;
          itemYear = DriverOperator_itemYear H item;
          monthMatch = (Month filters = ''All'' \<or> (truthy itemMonthName \<and> itemMonthName = Str (Month filters)));
          yearMatch = (Year filters = ''All'' \<or> (itemYear \<noteq> [] \<and> itemYear = Year filters));
          sapNo = js_nullish (item ''SAP NO.'') (item ''SAP NO:'');
          sapMatch = (lowercasedSapFilter = []
                      \<or> str_includes (toLowerCase (toStr H sapNo)) lowercasedSapFilter)
      in monthMatch \<and> yearMatch \<and> sapMatch)"

text \<open>
  The comparator of the second sort, \<open>(a, b) => a === 'All' ? -1 : b === 'All' ? 1 :
  a.localeCompare(b)\<close>.
\<close>

definition allFirst :: "host \<Rightarrow> string \<Rightarrow> string \<Rightarrow> int" where
  "allFirst H a b = (if a = ''All'' then - 1 else if b = ''All'' then 1 else localeCompare H a b)"

text \<open>
  The end of both option computations: the current selection is pushed when it is not
  "All" and not in the list, and the list is sorted again.
\<close>

definition withSelection :: "host \<Rightarrow> string \<Rightarrow> string list \<Rightarrow> string list" where
  "withSelection H selected list =
     (if selected \<noteq> ''All'' \<and> selected \<notin> set list then sortCmp (allFirst H) (list @ [selected])
      else list)"

definition DriverOperator_businessUnits :: "host \<Rightarrow> row list \<Rightarrow> do_filters \<Rightarrow> string \<Rightarrow> string list" where
  "DriverOperator_businessUnits H data filters sapFilter =
     (let baseFilteredData = filter (DriverOperator_baseMatch H filters sapFilter) data;
          buData = filter (\<lambda>item. Designation filters = ''All''
                                   \<or> getDesignation item = Str (Designation filters)) baseFilteredData;
          businessUnitsList = optionList (map (\<lambda>item. toStr H (getBusinessUnit item))
                                            (filter (\<lambda>item. truthy (getBusinessUnit item)) buData))
      in withSelection H (Business_Units filters) businessUnitsList)"

definition DriverOperator_designations :: "host \<Rightarrow> row list \<Rightarrow> do_filters \<Rightarrow> string \<Rightarrow> string list" where
  "DriverOperator_designations H data filters sapFilter =
     (let baseFilteredData = filter (DriverOperator_baseMatch H filters sapFilter) data;
          designationData = filter (\<lambda>item. Business_Units filters = ''All''
                                            \<or> toStr H (getBusinessUnit item) = Business_Units filters)
                              baseFilteredData;
          designationsList = optionList (map (\<lambda>item. toStr H (getDesignation item))
                                           (filter (\<lambda>item. truthy (getDesignation item)) designationData))
      in withSelection H (Designation filters) designationsList)"

text \<open>
  \<open>filteredData\<close>; its month, year and SAP conditions are those of \<open>baseFilteredData\<close>.
\<close>

definition DriverOperator_match :: "host \<Rightarrow> do_filters \<Rightarrow> string \<Rightarrow> row \<Rightarrow> bool" where
  "DriverOperator_match H filters sapFilter item =
     (let itemBU = getBusinessUnit item;
          businessUnitMatch = (Business_Units filters = ''All'' \<or> toStr H itemBU = Business_Units filters);
          designationMatch = (Designation filters = ''All'' \<or> getDesignation item = Str (Designation filters))
      in DriverOperator_baseMatch H filters sapFilter item \<and> businessUnitMatch \<and> designationMatch)"

definition DriverOperator_filteredData :: "host \<Rightarrow> row list \<Rightarrow> do_filters \<Rightarrow> string \<Rightarrow> row list" where
  "DriverOperator_filteredData H data filters sapFilter =
     filter (DriverOperator_match H filters sapFilter) data"

text \<open>The members of \<open>summaryData\<close> read below.\<close>

definition DriverOperator_totalRevenue :: "host \<Rightarrow> row list \<Rightarrow> jsval" where
  "DriverOperator_totalRevenue H filteredData =
     foldl (\<lambda>acc item. js_add H acc (js_nullish (item ''Revenue'') (Num (Fin 0)))) (Num (Fin 0)) filteredData"

definition DriverOperator_totalExpense :: "host \<Rightarrow> row list \<Rightarrow> jsval" where
  "DriverOperator_totalExpense H filteredData =
     foldl (\<lambda>acc item. js_add H acc (js_nullish (item ''Expense'') (Num (Fin 0)))) (Num (Fin 0)) filteredData"

definition DriverOperator_totalProfit :: "host \<Rightarrow> row list \<Rightarrow> jsval" where
  "DriverOperator_totalProfit H filteredData =
     foldl (\<lambda>acc item. js_add H acc (js_nullish (item ''Profit'') (Num (Fin 0)))) (Num (Fin 0)) filteredData"

section \<open>The ingestion worker\<close>

text \<open>
  A raw row of \<open>sheet_to_json\<close>: its own properties in enumeration order.  \<open>row[key]\<close> is
  the value of the first pair with that key, \<open>undefined\<close> without one.
\<close>

type_synonym rawrow = "(string \<times> jsval) list"

definition rawGet :: "rawrow \<Rightarrow> string \<Rightarrow> jsval" where
  "rawGet r key = (case map_of r key of None \<Rightarrow> Undefined | Some v \<Rightarrow> v)"

text \<open>The filter applied to the rows of the Internal Fleets sheet.\<close>

definition hasRegNo :: "host \<Rightarrow> rawrow \<Rightarrow> bool" where
  "hasRegNo H r = (truthy (rawGet r ''Reg No:'') \<and> trim (toStr H (rawGet r ''Reg No:'')) \<noteq> [])"

text \<open>
  A valid date becomes the UTC midnight of its local calendar day; any other value is
  kept.
\<close>

definition cleanValue :: "host \<Rightarrow> jsval \<Rightarrow> jsval" where
  "cleanValue H v =
     (if isValidDate v then
        (case v of
           DateV d \<Rightarrow> (case localFields H d of (y, m, dd) \<Rightarrow> DateV (Date_UTC y m dd))
         | _ \<Rightarrow> v)
      else v)"

text \<open>The loop over the keys of a raw row, writing \<open>cleanedRow[key.trim()]\<close>.\<close>

definition cleanRow :: "host \<Rightarrow> rawrow \<Rightarrow> row" where
  "cleanRow H r =
     foldl (\<lambda>cleanedRow key. cleanedRow(trim key := cleanValue H (rawGet r key)))
       (\<lambda>k. Undefined) (map fst r)"

definition cleanedJson :: "host \<Rightarrow> string \<Rightarrow> rawrow list \<Rightarrow> row list" where
  "cleanedJson H expectedSheetName rawJson =
     map (cleanRow H)
       (if expectedSheetName = ''Internal Fleets'' then filter (hasRegNo H) rawJson else rawJson)"

section \<open>Words of the specification\<close>

text \<open>
  A registration number is blank when it is missing, empty or only white space.
\<close>

definition blankCell :: "jsval \<Rightarrow> bool" where
  "blankCell v = (case v of Undefined \<Rightarrow> True | Null \<Rightarrow> True | Str s \<Rightarrow> trim s = [] | _ \<Rightarrow> False)"

text \<open>
  The revenue of a list of Fleet Management rows, summed as the view and the dashboard
  sum it: \<open>rows.reduce((sum, i) => sum + (i['Splited Amount'] || 0), 0)\<close>.
\<close>

definition sumSplitedAmount :: "host \<Rightarrow> row list \<Rightarrow> jsval" where
  "sumSplitedAmount H rows =
     foldl (\<lambda>sum i. js_add H sum (js_or (i ''Splited Amount'') (Num (Fin 0)))) (Num (Fin 0)) rows"

text \<open>
  The date-valued columns that the dashboard consults, in priority order, and the text
  columns of the fallback.
\<close>

definition primaryDateColumns :: "row \<Rightarrow> jsval list" where
  "primaryDateColumns item = [item ''End Date'', item ''Month'', item ''DATE'', item ''Date:'']"

definition monthTextColumn :: "row \<Rightarrow> jsval" where
  "monthTextColumn item = js_nullish (item ''MONTH'') (item ''Month'')"

definition yearColumn :: "row \<Rightarrow> jsval" where
  "yearColumn item = js_nullish (item ''YEAR'') (item ''Year'')"

text \<open>The registration number of a normalized row.\<close>

definition regNoOf :: "row \<Rightarrow> jsval" where
  "regNoOf cleanedRow = cleanedRow ''Reg No:''"

text \<open>
  No other column header of the raw row becomes \<open>Reg No:\<close> when trimmed.
\<close>

definition regNoKeyUnique :: "rawrow \<Rightarrow> bool" where
  "regNoKeyUnique r = list_all (\<lambda>key. trim key = ''Reg No:'' \<longrightarrow> key = ''Reg No:'') (map fst r)"

section \<open>Example inputs\<close>

text \<open>
  An object literal: the listed properties, \<open>undefined\<close> for every other key.
\<close>

definition obj :: "(string \<times> jsval) list \<Rightarrow> row" where
  "obj kvs = (\<lambda>k. case map_of kvs k of None \<Rightarrow> Undefined | Some v \<Rightarrow> v)"

text \<open>
  A host for evaluating examples: UTC as the local time zone and code-unit order as the
  collation; the renderings and conversions are fixed values that no example relies on.
\<close>

definition plainHost :: host where
  "plainHost = \<lparr> numberToString = (\<lambda>q. ''0.5''),
                 dateToString = (\<lambda>d. ''Mon Jan 15 2024 00:00:00 GMT+0000''),
                 stringToNumber = (\<lambda>s. NaN),
                 dateValueOf = (\<lambda>d. Fin 0),
                 localeCompare = (\<lambda>a b. if a < b then - 1 else if a = b then 0 else 1),
                 localFields = (\<lambda>d. case d of InvalidDate \<Rightarrow> (1970, 0, 1)
                                          | UTCDate y m r \<Rightarrow> (y, m, r div 86400000 + 1)) \<rparr>"

text \<open>Two rows without any date column, the second with a month name but no year.\<close>

definition undatedRows :: "row list" where
  "undatedRows = [obj [(''Business Units'', Str ''Alpha''), (''Splited Amount'', Num (Fin 10))],
                  obj [(''Month'', Str ''JAN''), (''Cluster'', Str ''North'')]]"


text \<open>
  Scenario A of the specification: two Driver and Operator rows, and the filter state
  that selects January 2024.
\<close>

definition scenarioA_jan :: row where
  "scenarioA_jan = obj [(''Month'', Str ''JAN''), (''Year'', Str ''2024''),
                        (''Revenue'', Num (Fin 100)), (''Expense'', Num (Fin 40))]"

definition scenarioA_feb :: row where
  "scenarioA_feb = obj [(''Month'', Str ''FEB''), (''Year'', Str ''2024''),
                        (''Revenue'', Num (Fin 50)), (''Expense'', Num (Fin 10))]"

definition scenarioA_filters :: do_filters where
  "scenarioA_filters = \<lparr>Month = ''JAN'', Year = ''2024'', Business_Units = ''All'', Designation = ''All''\<rparr>"

text \<open>
  A workbook whose External Fleets sheet has two rows, one with an invoice number and
  one without, and the shared filter state with every dimension at "All".
\<close>

definition invoiceData :: ExcelData where
  "invoiceData = \<lparr>Dashboard_sheet = [], Fleet_Management = [], Driver_Operator = [], Job_Card = [],
                   Internal_Fleets = [],
                   External_Fleets = [obj [(''Reg No:'', Str ''A1''), (''Invoice Number:'', Str ''INV-1'')],
                                      obj [(''Reg No:'', Str ''B2'')]]\<rparr>"

definition allShared :: SharedFilterState where
  "allShared = \<lparr>month = ''All'', year = ''All'', businessUnit = ''All'',
                 internalType = ''All'', designation = ''All''\<rparr>"

text \<open>Two job-card rows and two vehicle rows with numeric amounts, and the filter states at "All".\<close>

definition jobCardRows :: "row list" where
  "jobCardRows = [obj [(''Month'', Str ''JAN''), (''Year'', Num (Fin 2024)), (''Business Units'', Str ''Alpha''),
                       (''Total amount with Service Charge'', Num (Fin 10)), (''Profit'', Num (Fin 4)),
                       (''Expense'', Num (Fin 7))],
                  obj [(''Month'', Str ''FEB''), (''Year'', Num (Fin 2024)), (''Business Units'', Str ''Beta''),
                       (''Total Amount w%'', Num (Fin 20)), (''Profit'', Num (Fin 5))]]"

definition vehicleRows :: "row list" where
  "vehicleRows = [obj [(''Reg No:'', Str ''A1''), (''F-Revenue'', Num (Fin 30)), (''R-Revenue'', Num (Fin 50))],
                  obj [(''Reg No:'', Str ''B2''), (''F-Revenue'', Num (Fin 20))]]"

definition allJobCard :: jc_filters where
  "allJobCard = \<lparr>Month = ''All'', Year = ''All'', Business_Units = ''All'', Cluster = ''All''\<rparr>"

definition allInternal :: if_filters where
  "allInternal = \<lparr>Month = ''All'', Year = ''All'', Business_Units = ''All'', Fleet_Category = ''All''\<rparr>"

definition gammaJobCard :: jc_filters where
  "gammaJobCard = \<lparr>Month = ''All'', Year = ''All'', Business_Units = ''Gamma'', Cluster = ''All''\<rparr>"

definition jobCardData :: ExcelData where
  "jobCardData = \<lparr>Dashboard_sheet = [], Fleet_Management = [], Driver_Operator = [], Job_Card = jobCardRows,
                   Internal_Fleets = [], External_Fleets = []\<rparr>"

text \<open>
  A workbook with one job-card row whose amount is the double 1.7 and whose profit is the
  double 0.4, each written as the fraction that the double is.
\<close>

definition tenthsData :: ExcelData where
  "tenthsData = \<lparr>Dashboard_sheet = [], Fleet_Management = [], Driver_Operator = [],
                  Job_Card = [obj [(''Total amount with Service Charge'', Num (Fin (7656119366529843 / 2 ^ 52))),
                                   (''Profit'', Num (Fin (7205759403792794 / 2 ^ 54))),
                                   (''Expense'', Num (Fin 1))]],
                  Internal_Fleets = [], External_Fleets = []\<rparr>"

text \<open>
  Fleet Management rows dated by a \<open>Date\<close> in the Month column: January 2024 for Alpha
  and Beta, February 2024 for Alpha; and a single January row with a negative amount.
\<close>

definition fleetRows :: "row list" where
  "fleetRows = [obj [(''Month'', DateV (UTCDate 2024 0 0)), (''Business Units'', Str ''Alpha''),
                     (''Splited Amount'', Num (Fin 30))],
                obj [(''Month'', DateV (UTCDate 2024 0 0)), (''Business Units'', Str ''Beta''),
                     (''Splited Amount'', Num (Fin 70))],
                obj [(''Month'', DateV (UTCDate 2024 1 0)), (''Business Units'', Str ''Alpha''),
                     (''Splited Amount'', Num (Fin 50))]]"

definition creditRows :: "row list" where
  "creditRows = [obj [(''Month'', DateV (UTCDate 2024 0 0)), (''Business Units'', Str ''Alpha''),
                      (''Splited Amount'', Num (Fin (- 10)))]]"

definition januaryAlpha :: view_filters where
  "januaryAlpha = \<lparr>Month = ''JAN'', Year = ''2024'', Business_Units = ''Alpha''\<rparr>"

definition sharedJanuaryAlpha :: SharedFilterState where
  "sharedJanuaryAlpha = \<lparr>month = ''JAN'', year = ''2024'', businessUnit = ''Alpha'',
                          internalType = ''All'', designation = ''All''\<rparr>"

definition fleetData :: "row list \<Rightarrow> ExcelData" where
  "fleetData rows = \<lparr>Dashboard_sheet = [], Fleet_Management = rows, Driver_Operator = [], Job_Card = [],
                      Internal_Fleets = [], External_Fleets = []\<rparr>"

text \<open>One Driver and Operator row of business unit Alpha, and the filter state at "All".\<close>

definition driverRows :: "row list" where
  "driverRows = [obj [(''BUSINESS UNITS'', Str ''Alpha''), (''DESIGNATION'', Str ''DRIVER''),
                      (''Month'', Str ''JAN''), (''Year'', Num (Fin 2024))]]"

definition allDriver :: do_filters where
  "allDriver = \<lparr>Month = ''All'', Year = ''All'', Business_Units = ''All'', Designation = ''All''\<rparr>"

text \<open>
  A Driver and Operator row whose text columns say January 2024 and whose End Date is a
  day of February 2025; a row dated by text columns only; a row dated by End Date only.
\<close>

definition conflictRow :: row where
  "conflictRow = obj [(''Month'', Str ''JAN''), (''Year'', Str ''2024''),
                      (''End Date'', DateV (UTCDate 2025 1 0))]"

definition textDatedRow :: row where
  "textDatedRow = obj [(''MONTH'', Str ''january''), (''YEAR'', Num (Fin 2024))]"

definition endDatedRow :: row where
  "endDatedRow = obj [(''End Date'', DateV (UTCDate 2025 1 0)), (''MONTH'', Str ''JAN''),
                      (''YEAR'', Num (Fin 2024))]"

text \<open>
  Raw rows of the Internal Fleets sheet: a vehicle, a row whose registration number is
  spaces, a row whose registration number is a no-break space and a tab, and a row without
  one; and a raw row with two headers that differ only by a trailing space, the second
  holding a single space.
\<close>

definition rawVehicles :: "rawrow list" where
  "rawVehicles = [[(''Reg No:'', Str ''A1''), ('' Fleet No: '', Str ''F1'')],
                  [(''Reg No:'', Str ''   ''), (''Fleet No:'', Str ''F2'')],
                  [(''Reg No:'', Str [CHR 0xA0, CHR 0x09]), (''Fleet No:'', Str ''F4'')],
                  [(''Fleet No:'', Str ''F3'')]]"

definition rawDuplicateHeader :: "rawrow list" where
  "rawDuplicateHeader = [[(''Reg No:'', Str ''A1''), (''Reg No: '', Str '' '')]]"

section \<open>Rounding\<close>

lemma bitlen_unique:
  assumes "2 ^ n \<le> x" and "x < 2 ^ Suc n"
  shows "bitlen x = int n + 1"
proof -
  have p: "0 < x" using assms(1) zero_less_power [of "2::int" n] by linarith
  have b: "2 ^ nat (bitlen x - 1) \<le> x" "x < 2 ^ nat (bitlen x)"
    using bitlen_bounds [OF p] by simp_all
  have g: "1 \<le> bitlen x" using p by (simp add: bitlen_alt_def)
  have "(2::int) ^ n < 2 ^ nat (bitlen x)" using assms(1) b(2) by linarith
  then have 1: "n < nat (bitlen x)" by (simp add: power_strict_increasing_iff)
  have "(2::int) ^ nat (bitlen x - 1) < 2 ^ Suc n" using assms(2) b(1) by linarith
  then have 2: "nat (bitlen x - 1) < Suc n" by (simp only: power_strict_increasing_iff)
  show ?thesis using 1 2 g by linarith
qed

lemma pow2_nonneg: "0 \<le> k \<Longrightarrow> pow2 k = of_int (2 ^ nat k)"
  by (simp add: pow2_def)

lemma pow2_pos: "0 < pow2 k"
  by (simp add: pow2_def)

text \<open>\<open>binade\<close> finds the exponent: the only \<open>k\<close> with \<open>2^k \<le> a < 2^(k+1)\<close>.\<close>

lemma binade_unique:
  assumes lo: "pow2 k \<le> a" and hi: "a < pow2 (k + 1)"
  shows "binade a = k"
proof (cases "1 \<le> a")
  case True
  have k0: "0 \<le> k"
  proof (rule ccontr)
    assume "\<not> 0 \<le> k"
    then have "k + 1 \<le> 0" by simp
    then have "pow2 (k + 1) \<le> 1" by (cases "k + 1 = 0") (simp_all add: pow2_def)
    with hi True show False by simp
  qed
  have "of_int (2 ^ nat k) \<le> a" using lo k0 by (simp add: pow2_nonneg)
  then have 1: "2 ^ nat k \<le> \<lfloor>a\<rfloor>" by (simp add: le_floor_iff)
  have "a < of_int (2 ^ nat (k + 1))" using hi k0 by (simp add: pow2_nonneg)
  then have "\<lfloor>a\<rfloor> < 2 ^ nat (k + 1)" by (simp add: floor_less_iff)
  then have 2: "\<lfloor>a\<rfloor> < 2 ^ Suc (nat k)" using k0 by (simp add: nat_add_distrib)
  have "bitlen \<lfloor>a\<rfloor> = int (nat k) + 1" using 1 2 by (rule bitlen_unique)
  then show ?thesis using True k0 by (simp add: binade_def)
next
  case False
  have apos: "0 < a" using lo pow2_pos [of k] by simp
  have k0: "k < 0"
  proof (rule ccontr)
    assume "\<not> k < 0"
    then have "1 \<le> pow2 k" by (simp add: pow2_def)
    with lo False show False by simp
  qed
  define j where "j = nat (- k)"
  have j: "0 < j" "k = - int j" using k0 by (simp_all add: j_def)
  have lo': "1 / a \<le> 2 ^ j"
  proof -
    have "1 / 2 ^ j \<le> a" using lo k0 by (simp add: pow2_def j_def)
    then show ?thesis using apos by (simp add: field_simps)
  qed
  have hi': "2 ^ (j - 1) < 1 / a"
  proof -
    have "pow2 (k + 1) = 1 / 2 ^ (j - 1)"
      using j by (cases "j = 1") (auto simp: pow2_def nat_diff_distrib)
    then have "a < 1 / 2 ^ (j - 1)" using hi by simp
    then show ?thesis using apos by (simp add: field_simps)
  qed
  have c1: "\<lceil>1 / a\<rceil> \<le> 2 ^ j"
  proof -
    have "1 / a \<le> of_int (2 ^ j)" using lo' by simp
    then show ?thesis by (simp only: ceiling_le_iff)
  qed
  have c2: "2 ^ (j - 1) < \<lceil>1 / a\<rceil>"
  proof -
    have "of_int (2 ^ (j - 1)) < 1 / a" using hi' by simp
    then show ?thesis by (simp only: less_ceiling_iff)
  qed
  have "bitlen (\<lceil>1 / a\<rceil> - 1) = int (j - 1) + 1"
  proof (rule bitlen_unique)
    show "2 ^ (j - 1) \<le> \<lceil>1 / a\<rceil> - 1" using c2 by simp
    show "\<lceil>1 / a\<rceil> - 1 < 2 ^ Suc (j - 1)" using c1 j by simp
  qed
  then show ?thesis using False j by (simp add: binade_def)
qed

lemma toDouble_binade:
  assumes "q \<noteq> 0" and "pow2 k \<le> \<bar>q\<bar>" and "\<bar>q\<bar> < pow2 (k + 1)"
  shows "toDouble q
         = (let e = max (k - 52) (- 1074);
                r = of_int (roundHalfEven (\<bar>q\<bar> / pow2 e)) * pow2 e
            in if pow2 1024 \<le> r then (if 0 < q then PosInf else NegInf)
               else Fin (if 0 < q then r else - r))"
  using assms(1) binade_unique [OF assms(2,3)] by (simp add: toDouble_def)

lemma floor_numeral_divide:
  "\<lfloor>(numeral a :: rat) / numeral b\<rfloor> = (numeral a :: int) div numeral b"
  using floor_divide_of_int_eq [of "numeral a" "numeral b", where ?'a = rat] by simp

lemma roundHalfEven_of_int: "roundHalfEven (of_int m) = m"
  by (simp add: roundHalfEven_def)

text \<open>An integer below \<open>2^53\<close> in magnitude is a double: rounding leaves it as it is.\<close>

lemma toDouble_of_int:
  assumes "\<bar>n\<bar> < 2 ^ 53"
  shows "toDouble (of_int n) = Fin (of_int n)"
proof (cases "n = 0")
  case True
  then show ?thesis by (simp add: toDouble_def)
next
  case False
  define m where "m = \<bar>n\<bar>"
  define k where "k = bitlen m - 1"
  have mpos: "0 < m" using False by (simp add: m_def)
  have b: "2 ^ nat k \<le> m" "m < 2 ^ nat (k + 1)"
    using bitlen_bounds [OF mpos] by (simp_all add: k_def)
  have k0: "0 \<le> k" using mpos by (simp add: k_def bitlen_alt_def)
  have "(2::int) ^ nat k < 2 ^ 53" using b(1) assms by (simp add: m_def)
  then have "nat k < 53" by (simp only: power_strict_increasing_iff)
  then have k52: "k \<le> 52" by simp
  define j where "j = nat (52 - k)"
  have e: "max (k - 52) (- 1074) = - int j" using k0 k52 by (simp add: j_def)
  have abs: "\<bar>of_int n :: rat\<bar> = of_int m" by (simp add: m_def)
  have lo: "pow2 k \<le> \<bar>of_int n :: rat\<bar>"
    unfolding abs pow2_nonneg [OF k0] using b(1) by (simp only: of_int_le_iff)
  have hi: "\<bar>of_int n :: rat\<bar> < pow2 (k + 1)"
  proof -
    have "0 \<le> k + 1" using k0 by simp
    then show ?thesis
      unfolding abs using b(2) by (simp only: pow2_nonneg of_int_less_iff)
  qed
  have q: "(of_int n :: rat) \<noteq> 0" using False by simp
  have p: "pow2 (- int j) = 1 / 2 ^ j" by (cases "j = 0") (simp_all add: pow2_def)
  have s: "\<bar>of_int n :: rat\<bar> / pow2 (- int j) = of_int (m * 2 ^ j)"
    by (simp add: abs p)
  have r: "of_int (roundHalfEven (\<bar>of_int n :: rat\<bar> / pow2 (- int j))) * pow2 (- int j) = (of_int m :: rat)"
    unfolding s roundHalfEven_of_int by (simp add: p)
  have "m < 2 ^ 1024" using assms by (simp add: m_def)
  then have "(of_int m :: rat) < of_int (2 ^ 1024)" by (simp only: of_int_less_iff)
  then have big: "\<not> pow2 1024 \<le> (of_int m :: rat)" by (simp add: pow2_def)
  have sgn: "(if 0 < (of_int n :: rat) then of_int m else - of_int m) = (of_int n :: rat)"
    by (simp add: m_def)
  show ?thesis
    unfolding toDouble_binade [OF q lo hi] e Let_def r using big sgn by simp
qed

lemma toDouble_numeral: "numeral w < (2 ^ 53 :: int) \<Longrightarrow> toDouble (numeral w) = Fin (numeral w)"
  using toDouble_of_int [of "numeral w"] by simp

lemma toDouble_neg_numeral:
  "numeral w < (2 ^ 53 :: int) \<Longrightarrow> toDouble (- numeral w) = Fin (- numeral w)"
  using toDouble_of_int [of "- numeral w"] by simp

lemma toDouble_0_1: "toDouble 0 = Fin 0" "toDouble 1 = Fin 1"
  using toDouble_of_int [of 0] toDouble_of_int [of 1] by simp_all

lemmas toDouble_small = toDouble_numeral toDouble_neg_numeral toDouble_0_1

section \<open>Operators on finite numbers\<close>

lemma js_add_Fin: "js_add H (Num (Fin a)) (Num (Fin b)) = Num (toDouble (a + b))"
  by (simp add: js_add_def toPrimitive_def isString_def toNumber_def)

lemma js_sub_Fin: "js_sub H (Num (Fin a)) (Num (Fin b)) = Num (toDouble (a - b))"
  by (simp add: js_sub_def toNumber_def)

lemma js_mul_Fin: "js_mul H (Num (Fin a)) (Num (Fin b)) = Num (toDouble (a * b))"
  by (simp add: js_mul_def toNumber_def)

lemma js_div_Fin: "b \<noteq> 0 \<Longrightarrow> js_div H (Num (Fin a)) (Num (Fin b)) = Num (toDouble (a / b))"
  by (simp add: js_div_def toNumber_def)

lemma js_gt_Fin: "js_gt H (Num (Fin a)) (Num (Fin b)) = (b < a)"
  by (simp add: js_gt_def toNumber_def)

lemma js_or_Fin: "js_or (Num (Fin a)) (Num (Fin 0)) = Num (Fin a)"
  by (simp add: js_or_def truthy_def)

lemma js_nullish_Fin: "js_nullish (Num (Fin a)) w = Num (Fin a)"
  by (simp add: js_nullish_def)

lemmas js_Fin = js_add_Fin js_sub_Fin js_mul_Fin js_div_Fin js_gt_Fin js_or_Fin js_nullish_Fin

section \<open>Strings\<close>

lemma digitsOf_2024: "digitsOf 2024 = ''2024''"
  by (simp add: digitsOf.simps char_of_def bit_0)

lemma toStr_2024: "toStr H (Num (Fin 2024)) = ''2024''"
  by (simp add: toStr_def numToStr_def intToString_def digitsOf_2024)

lemma toStr_Str: "toStr H (Str s) = s"
  by (simp add: toStr_def)

lemma toUpperCase_abbreviations:
  "toUpperCase ''JAN'' = ''JAN''" "toUpperCase ''FEB'' = ''FEB''"
  by (simp_all add: toUpperCase_def upperChars_def)

section \<open>Option lists and the dimension's own selection\<close>

lemma JobCardView_businessUnits_own:
  "JobCardView_businessUnits H data (filters\<lparr>Business_Units := v\<rparr>) s = JobCardView_businessUnits H data filters s"
  by (simp add: JobCardView_businessUnits_def JobCardView_baseMatch_def)

lemma JobCardView_clusters_own:
  "JobCardView_clusters H data (filters\<lparr>Cluster := v\<rparr>) s = JobCardView_clusters H data filters s"
  by (simp add: JobCardView_clusters_def JobCardView_baseMatch_def)

lemma InternalFleetsView_businessUnits_own:
  "InternalFleetsView_businessUnits H data (filters\<lparr>Business_Units := v\<rparr>) s
   = InternalFleetsView_businessUnits H data filters s"
  by (simp add: InternalFleetsView_businessUnits_def InternalFleetsView_baseMatch_def)

lemma InternalFleetsView_fleetCategories_own:
  "InternalFleetsView_fleetCategories H data (filters\<lparr>Fleet_Category := v\<rparr>) s
   = InternalFleetsView_fleetCategories H data filters s"
  by (simp add: InternalFleetsView_fleetCategories_def InternalFleetsView_baseMatch_def)

lemma withSelection_All: "withSelection H ''All'' list = list"
  by (simp add: withSelection_def)

lemma DriverOperator_businessUnits_own:
  "DriverOperator_businessUnits H data (filters\<lparr>Business_Units := v\<rparr>) s
   = withSelection H v (DriverOperator_businessUnits H data (filters\<lparr>Business_Units := ''All''\<rparr>) s)"
  by (simp add: DriverOperator_businessUnits_def DriverOperator_baseMatch_def withSelection_All)

lemma DriverOperator_designations_own:
  "DriverOperator_designations H data (filters\<lparr>Designation := v\<rparr>) s
   = withSelection H v (DriverOperator_designations H data (filters\<lparr>Designation := ''All''\<rparr>) s)"
  by (simp add: DriverOperator_designations_def DriverOperator_baseMatch_def withSelection_All)

lemma set_insertCmp: "set (insertCmp cmp x ys) = insert x (set ys)"
  by (induction ys) auto

lemma set_sortCmp: "set (sortCmp cmp xs) = set xs"
  by (induction xs) (simp_all add: sortCmp_def set_insertCmp)

lemma set_withSelection:
  "''All'' \<in> set list \<Longrightarrow> set (withSelection H v list) = insert v (set list)"
  by (auto simp: withSelection_def set_sortCmp)

lemma All_in_optionList: "''All'' \<in> set (optionList xs)"
  by (simp add: optionList_def)

lemma driver_base:
  "DriverOperator_businessUnits H driverRows allDriver [] = [''All'', ''Alpha'']"
  by (simp add: DriverOperator_businessUnits_def DriverOperator_baseMatch_def allDriver_def driverRows_def
      withSelection_All toLowerCase_def trim_def getBusinessUnit_def js_nullish_def obj_def truthy_def
      toStr_def optionList_def setFrom_def)

lemma driver_pushed:
  "withSelection plainHost ''Beta'' [''All'', ''Alpha''] = [''All'', ''Alpha'', ''Beta'']"
  by (simp add: withSelection_def sortCmp_def allFirst_def plainHost_def)

lemma allDriver_All: "allDriver\<lparr>Business_Units := ''All''\<rparr> = allDriver"
  by (simp add: allDriver_def)

text \<open>
  C1, as stated, fails in the Driver and Operator view: two filter states that differ only
  in the selected business unit yield different business-unit option lists.
\<close>

theorem driver_options_depend_on_own_selection:
  "DriverOperator_businessUnits plainHost driverRows
     \<lparr>Month = ''All'', Year = ''All'', Business_Units = ''Beta'', Designation = ''All''\<rparr> []
   \<noteq> DriverOperator_businessUnits plainHost driverRows
       \<lparr>Month = ''All'', Year = ''All'', Business_Units = ''All'', Designation = ''All''\<rparr> []"
proof -
  have "DriverOperator_businessUnits plainHost driverRows (allDriver\<lparr>Business_Units := ''Beta''\<rparr>) []
        = [''All'', ''Alpha'', ''Beta'']"
    by (simp add: DriverOperator_businessUnits_own [where filters = allDriver and v = "''Beta''"]
        allDriver_All driver_base driver_pushed)
  moreover have "DriverOperator_businessUnits plainHost driverRows allDriver [] = [''All'', ''Alpha'']"
    by (rule driver_base)
  ultimately show ?thesis
    by (simp add: allDriver_def)
qed

text \<open>
  C1, amended.  In the Job Card view and in the Internal Fleets view the option list of a
  dimension (business unit, cluster, fleet category) does not depend on that dimension's
  own selection.  In the Driver and Operator view the option list of business unit and of
  designation is the list computed from the other dimensions alone, to which the
  dimension's own selection is pushed, the list being sorted again with "All" first, when
  that selection is not "All" and not yet in the list; so its members are those of the
  list computed from the other dimensions together with the selection.
\<close>

theorem option_lists_and_own_selection:
  "JobCardView_businessUnits H jobCards (jcFilters\<lparr>Business_Units := v\<rparr>) jcSearch
     = JobCardView_businessUnits H jobCards jcFilters jcSearch
   \<and> JobCardView_clusters H jobCards (jcFilters\<lparr>Cluster := v\<rparr>) jcSearch
       = JobCardView_clusters H jobCards jcFilters jcSearch
   \<and> InternalFleetsView_businessUnits H vehicles (ifFilters\<lparr>Business_Units := v\<rparr>) ifSearch
       = InternalFleetsView_businessUnits H vehicles ifFilters ifSearch
   \<and> InternalFleetsView_fleetCategories H vehicles (ifFilters\<lparr>Fleet_Category := v\<rparr>) ifSearch
       = InternalFleetsView_fleetCategories H vehicles ifFilters ifSearch
   \<and> DriverOperator_businessUnits H drivers (doFilters\<lparr>Business_Units := v\<rparr>) sapFilter
       = withSelection H v
           (DriverOperator_businessUnits H drivers (doFilters\<lparr>Business_Units := ''All''\<rparr>) sapFilter)
   \<and> DriverOperator_designations H drivers (doFilters\<lparr>Designation := v\<rparr>) sapFilter
       = withSelection H v
           (DriverOperator_designations H drivers (doFilters\<lparr>Designation := ''All''\<rparr>) sapFilter)
   \<and> set (DriverOperator_businessUnits H drivers (doFilters\<lparr>Business_Units := v\<rparr>) sapFilter)
       = insert v (set (DriverOperator_businessUnits H drivers (doFilters\<lparr>Business_Units := ''All''\<rparr>)
                          sapFilter))
   \<and> set (DriverOperator_designations H drivers (doFilters\<lparr>Designation := v\<rparr>) sapFilter)
       = insert v (set (DriverOperator_designations H drivers (doFilters\<lparr>Designation := ''All''\<rparr>)
                          sapFilter))"
proof -
  have b: "''All'' \<in> set (DriverOperator_businessUnits H drivers (doFilters\<lparr>Business_Units := ''All''\<rparr>) sapFilter)"
    by (simp add: DriverOperator_businessUnits_def withSelection_All All_in_optionList)
  have d: "''All'' \<in> set (DriverOperator_designations H drivers (doFilters\<lparr>Designation := ''All''\<rparr>) sapFilter)"
    by (simp add: DriverOperator_designations_def withSelection_All All_in_optionList)
  have sb: "set (DriverOperator_businessUnits H drivers (doFilters\<lparr>Business_Units := v\<rparr>) sapFilter)
       = insert v (set (DriverOperator_businessUnits H drivers (doFilters\<lparr>Business_Units := ''All''\<rparr>)
                          sapFilter))"
    by (subst DriverOperator_businessUnits_own) (rule set_withSelection [OF b])
  have sd: "set (DriverOperator_designations H drivers (doFilters\<lparr>Designation := v\<rparr>) sapFilter)
       = insert v (set (DriverOperator_designations H drivers (doFilters\<lparr>Designation := ''All''\<rparr>)
                          sapFilter))"
    by (subst DriverOperator_designations_own) (rule set_withSelection [OF d])
  show ?thesis
    by (intro conjI JobCardView_businessUnits_own JobCardView_clusters_own
        InternalFleetsView_businessUnits_own InternalFleetsView_fleetCategories_own
        DriverOperator_businessUnits_own DriverOperator_designations_own sb sd)
qed

theorem option_lists_and_own_selection_witness:
  "JobCardView_businessUnits plainHost jobCardRows (allJobCard\<lparr>Business_Units := ''Beta''\<rparr>) []
     = JobCardView_businessUnits plainHost jobCardRows allJobCard []
   \<and> InternalFleetsView_fleetCategories plainHost vehicleRows (allInternal\<lparr>Fleet_Category := ''Beta''\<rparr>) []
       = InternalFleetsView_fleetCategories plainHost vehicleRows allInternal []
   \<and> DriverOperator_businessUnits plainHost driverRows (allDriver\<lparr>Business_Units := ''Beta''\<rparr>) []
       = [''All'', ''Alpha'', ''Beta'']
   \<and> DriverOperator_businessUnits plainHost driverRows (allDriver\<lparr>Business_Units := ''All''\<rparr>) []
       = [''All'', ''Alpha'']"
proof -
  note T = option_lists_and_own_selection
             [where H = plainHost and jobCards = jobCardRows and jcFilters = allJobCard and v = "''Beta''"
                and jcSearch = "[]" and vehicles = vehicleRows and ifFilters = allInternal
                and ifSearch = "[]" and drivers = driverRows and doFilters = allDriver
                and sapFilter = "[]"]
  note a = allDriver_All
  have "DriverOperator_businessUnits plainHost driverRows (allDriver\<lparr>Business_Units := ''Beta''\<rparr>) []
        = withSelection plainHost ''Beta''
            (DriverOperator_businessUnits plainHost driverRows (allDriver\<lparr>Business_Units := ''All''\<rparr>) [])"
    using T by blast
  then have "DriverOperator_businessUnits plainHost driverRows (allDriver\<lparr>Business_Units := ''Beta''\<rparr>) []
        = [''All'', ''Alpha'', ''Beta'']"
    by (simp only: a driver_base driver_pushed)
  then show ?thesis
    using T by (simp only: a driver_base)
qed

section \<open>Filtering with every dimension at All\<close>

lemma FleetManagement_All:
  "FleetManagement_filteredData H data \<lparr>Month = ''All'', Year = ''All'', Business_Units = ''All''\<rparr> = data"
  by (simp add: FleetManagement_filteredData_def FleetManagement_match_def)

lemma JobCardView_All:
  "JobCardView_filteredData H data
     \<lparr>Month = ''All'', Year = ''All'', Business_Units = ''All'', Cluster = ''All''\<rparr> [] = data"
  by (simp add: JobCardView_filteredData_def JobCardView_match_def toLowerCase_def trim_def)

lemma Dashboard_All:
  "filter (filterByBUAndDate H \<lparr>month = ''All'', year = ''All'', businessUnit = ''All'',
                                  internalType = t, designation = d\<rparr>) data = data"
  by (simp add: filterByBUAndDate_def)

lemma DriverOperator_All:
  "DriverOperator_filteredData H data
     \<lparr>Month = ''All'', Year = ''All'', Business_Units = ''All'', Designation = ''All''\<rparr> [] = data"
  by (simp add: DriverOperator_filteredData_def DriverOperator_match_def DriverOperator_baseMatch_def
      toLowerCase_def trim_def)

lemma InternalFleetsView_All_explicit:
  "InternalFleetsView_filteredData H data
     \<lparr>Month = ''All'', Year = ''All'', Business_Units = ''All'', Fleet_Category = ''All''\<rparr> [] ''All'' = data"
  by (simp add: InternalFleetsView_filteredData_def InternalFleetsView_match_def
      InternalFleetsView_baseMatch_def toLowerCase_def trim_def)

lemma Dashboard_JobCard_All:
  "filter (filterJobCardByBUAndDate H \<lparr>month = ''All'', year = ''All'', businessUnit = ''All'',
                                         internalType = t, designation = d\<rparr>) data = data"
  by (simp add: filterJobCardByBUAndDate_def)

text \<open>
  C2.  When every filter dimension is the sentinel "All" and the free-text search is
  empty, the filtered rows are the whole input collection, row for row: in the Fleet
  Management view, in the Job Card view, and for the dashboard's filter by business unit
  and date.  Nothing is asked of the rows, so rows without a resolvable date stay.  The
  same holds in the Driver and Operator view, in the Internal Fleets view when the shared
  internal type is "All" as well, and for the dashboard's filter of the Job Card sheet.
\<close>

theorem all_dimensions_All_keeps_every_row:
  "FleetManagement_filteredData H data \<lparr>Month = ''All'', Year = ''All'', Business_Units = ''All''\<rparr> = data
   \<and> JobCardView_filteredData H data
        \<lparr>Month = ''All'', Year = ''All'', Business_Units = ''All'', Cluster = ''All''\<rparr> [] = data
   \<and> filter (filterByBUAndDate H \<lparr>month = ''All'', year = ''All'', businessUnit = ''All'',
                                      internalType = t, designation = d\<rparr>) data = data
   \<and> DriverOperator_filteredData H data
        \<lparr>Month = ''All'', Year = ''All'', Business_Units = ''All'', Designation = ''All''\<rparr> [] = data
   \<and> InternalFleetsView_filteredData H data
        \<lparr>Month = ''All'', Year = ''All'', Business_Units = ''All'', Fleet_Category = ''All''\<rparr> [] ''All''
       = data
   \<and> filter (filterJobCardByBUAndDate H \<lparr>month = ''All'', year = ''All'', businessUnit = ''All'',
                                             internalType = t, designation = d\<rparr>) data = data"
  by (intro conjI FleetManagement_All JobCardView_All Dashboard_All DriverOperator_All
      InternalFleetsView_All_explicit Dashboard_JobCard_All)

lemma undatedRows_unresolved: "list_all (\<lambda>r. getItemDate plainHost r = None) undatedRows"
  by (simp add: undatedRows_def getItemDate_def obj_def isValidDate_def js_nullish_def)

theorem all_dimensions_All_keeps_every_row_witness:
  "list_all (\<lambda>r. getItemDate plainHost r = None) undatedRows
   \<and> FleetManagement_filteredData plainHost undatedRows
        \<lparr>Month = ''All'', Year = ''All'', Business_Units = ''All''\<rparr> = undatedRows
   \<and> JobCardView_filteredData plainHost undatedRows
        \<lparr>Month = ''All'', Year = ''All'', Business_Units = ''All'', Cluster = ''All''\<rparr> [] = undatedRows
   \<and> filter (filterByBUAndDate plainHost \<lparr>month = ''All'', year = ''All'', businessUnit = ''All'',
                                              internalType = ''Fuel'', designation = ''DRIVER''\<rparr>) undatedRows
       = undatedRows
   \<and> DriverOperator_filteredData plainHost undatedRows
        \<lparr>Month = ''All'', Year = ''All'', Business_Units = ''All'', Designation = ''All''\<rparr> []
       = undatedRows
   \<and> InternalFleetsView_filteredData plainHost undatedRows
        \<lparr>Month = ''All'', Year = ''All'', Business_Units = ''All'', Fleet_Category = ''All''\<rparr> [] ''All''
       = undatedRows
   \<and> filter (filterJobCardByBUAndDate plainHost \<lparr>month = ''All'', year = ''All'', businessUnit = ''All'',
                                                     internalType = ''Fuel'', designation = ''DRIVER''\<rparr>)
        undatedRows = undatedRows"
  by (rule conjI [OF undatedRows_unresolved
        all_dimensions_All_keeps_every_row [of plainHost undatedRows "''Fuel''" "''DRIVER''"]])

section \<open>Resolving the date of a row\<close>

lemma getItemDate_primary:
  "find isValidDate (primaryDateColumns item) = Some (DateV d) \<Longrightarrow> getItemDate H item = Some d"
  by (auto simp: primaryDateColumns_def getItemDate_def dateOf_def split: if_splits)

lemma getItemDate_fallback:
  assumes "find isValidDate (primaryDateColumns item) = None"
  shows "getItemDate H item
         = (case monthTextColumn item of
              Str ms \<Rightarrow>
                (if yearColumn item \<noteq> Null \<and> yearColumn item \<noteq> Undefined then
                   (case parseInt10 (toStr H (yearColumn item)) of
                      None \<Rightarrow> None
                    | Some yearNum \<Rightarrow>
                        (case indexOf MONTH_NAMES (substring03 (toUpperCase ms)) of
                           None \<Rightarrow> None
                         | Some monthIndex \<Rightarrow> Some (Date_UTC yearNum monthIndex 15)))
                 else None)
            | _ \<Rightarrow> None)"
  using assms
  by (auto simp: primaryDateColumns_def getItemDate_def monthTextColumn_def yearColumn_def Let_def toStr_Str
      split: if_splits jsval.splits option.splits)

lemma indexOf_less: "indexOf xs x = Some i \<Longrightarrow> i < length xs \<and> xs ! i = x"
  by (induction xs arbitrary: i) (auto split: if_splits)

lemma Date_UTC_15_regular:
  "(y < 0 \<or> 99 < y) \<Longrightarrow> - 271821 < y \<Longrightarrow> y < 275760 \<Longrightarrow> Date_UTC y i 15 = UTCDate y i 1209600000"
  by (auto simp: Date_UTC_def)

lemma resolved_fields:
  "indexOf MONTH_NAMES name = Some i \<Longrightarrow>
   monthNameOf (UTCDate y i r) = Str name \<and> fullYearOf (UTCDate y i r) = Num (Fin (of_int y))"
  by (auto simp: monthNameOf_def fullYearOf_def arrayGet_def dest: indexOf_less)

lemma DriverOperator_priority:
  "truthy (item ''Month'')
   \<Longrightarrow> DriverOperator_itemMonthName H item = Str (substring03 (toUpperCase (toStr H (item ''Month''))))"
  "\<not> truthy (item ''Month'') \<Longrightarrow> DriverOperator_itemMonthName H item = getMonthName (item ''End Date'')"
  "truthy (item ''Year'') \<Longrightarrow> DriverOperator_itemYear H item = toStr H (item ''Year'')"
  "\<not> truthy (item ''Year'')
   \<Longrightarrow> DriverOperator_itemYear H item = toStr H (js_or (getYear (item ''End Date'')) (Str []))"
  by (simp_all add: DriverOperator_itemMonthName_def DriverOperator_itemYear_def)

lemma digitsOf_2025: "digitsOf 2025 = ''2025''"
  by (simp add: digitsOf.simps char_of_def bit_0)

lemma toStr_2025: "toStr H (Num (Fin 2025)) = ''2025''"
  by (simp add: toStr_def numToStr_def intToString_def digitsOf_2025)

text \<open>
  C3, as stated, fails in the Driver and Operator view: for a row whose End Date column
  holds a valid date of February 2025 and whose Month and Year columns say JAN and 2024,
  the view resolves January 2024, not the UTC components of the date.
\<close>

theorem driver_view_prefers_text_columns:
  "isValidDate (conflictRow ''End Date'')
   \<and> getMonthName (conflictRow ''End Date'') = Str ''FEB''
   \<and> toStr plainHost (getYear (conflictRow ''End Date'')) = ''2025''
   \<and> DriverOperator_itemMonthName plainHost conflictRow = Str ''JAN''
   \<and> DriverOperator_itemYear plainHost conflictRow = ''2024''"
  by (simp add: conflictRow_def obj_def isValidDate_def getMonthName_def getYear_def monthNameOf_def
      fullYearOf_def arrayGet_def MONTH_NAMES_def toStr_2025 DriverOperator_itemMonthName_def
      DriverOperator_itemYear_def truthy_def toStr_Str toUpperCase_abbreviations substring03_def)

text \<open>
  C3, amended.  In the dashboard, \<open>getItemDate\<close> resolves a row in this order.  (1) The
  first of the columns End Date, Month, DATE and Date: that holds a valid date gives the
  month and the year by its UTC components.  (2) Otherwise, if MONTH (else Month) is a
  string and YEAR (else Year) is neither null nor undefined, the month is the abbreviation
  equal to the upper-cased first three characters of the month text and the year is
  \<open>parseInt\<close> of the year value, for a year outside 0..99 and inside the range of
  \<open>Date\<close>; the result is null if the year does not parse or the prefix is no
  abbreviation.  (3) Otherwise the result is null.  In the Driver and Operator view the
  order is the reverse, for month and year separately: a truthy Month (Year) column is
  used as text, and only otherwise the End Date column.
\<close>

theorem date_resolution_order:
  "(find isValidDate (primaryDateColumns item) = Some (DateV (UTCDate y m r))
      \<longrightarrow> getItemDate H item = Some (UTCDate y m r)
          \<and> monthNameOf (UTCDate y m r) = arrayGet MONTH_NAMES m
          \<and> fullYearOf (UTCDate y m r) = Num (Fin (of_int y)))
   \<and> (find isValidDate (primaryDateColumns item) = None
        \<and> monthTextColumn item = Str ms
        \<and> yearColumn item \<noteq> Null \<and> yearColumn item \<noteq> Undefined
        \<and> parseInt10 (toStr H (yearColumn item)) = Some yearNum
        \<and> indexOf MONTH_NAMES (substring03 (toUpperCase ms)) = Some monthIndex
        \<and> (yearNum < 0 \<or> 99 < yearNum) \<and> - 271821 < yearNum \<and> yearNum < 275760
      \<longrightarrow> getItemDate H item = Some (UTCDate yearNum monthIndex 1209600000)
          \<and> monthNameOf (UTCDate yearNum monthIndex 1209600000) = Str (substring03 (toUpperCase ms))
          \<and> fullYearOf (UTCDate yearNum monthIndex 1209600000) = Num (Fin (of_int yearNum)))
   \<and> (find isValidDate (primaryDateColumns item) = None
        \<and> monthTextColumn item = Str ms
        \<and> (parseInt10 (toStr H (yearColumn item)) = None
            \<or> indexOf MONTH_NAMES (substring03 (toUpperCase ms)) = None)
      \<longrightarrow> getItemDate H item = None)
   \<and> (find isValidDate (primaryDateColumns item) = None
        \<and> (\<not> isString (monthTextColumn item) \<or> yearColumn item = Null \<or> yearColumn item = Undefined)
      \<longrightarrow> getItemDate H item = None)
   \<and> (truthy (item ''Month'')
      \<longrightarrow> DriverOperator_itemMonthName H item = Str (substring03 (toUpperCase (toStr H (item ''Month'')))))
   \<and> (\<not> truthy (item ''Month'')
      \<longrightarrow> DriverOperator_itemMonthName H item = getMonthName (item ''End Date''))
   \<and> (truthy (item ''Year'') \<longrightarrow> DriverOperator_itemYear H item = toStr H (item ''Year''))
   \<and> (\<not> truthy (item ''Year'')
      \<longrightarrow> DriverOperator_itemYear H item = toStr H (js_or (getYear (item ''End Date'')) (Str [])))"
proof (intro conjI impI)
  assume "find isValidDate (primaryDateColumns item) = Some (DateV (UTCDate y m r))"
  then show "getItemDate H item = Some (UTCDate y m r)"
    by (rule getItemDate_primary)
next
  show "monthNameOf (UTCDate y m r) = arrayGet MONTH_NAMES m"
    by (simp add: monthNameOf_def)
  show "fullYearOf (UTCDate y m r) = Num (Fin (of_int y))"
    by (simp add: fullYearOf_def)
next
  assume a: "find isValidDate (primaryDateColumns item) = None
        \<and> monthTextColumn item = Str ms
        \<and> yearColumn item \<noteq> Null \<and> yearColumn item \<noteq> Undefined
        \<and> parseInt10 (toStr H (yearColumn item)) = Some yearNum
        \<and> indexOf MONTH_NAMES (substring03 (toUpperCase ms)) = Some monthIndex
        \<and> (yearNum < 0 \<or> 99 < yearNum) \<and> - 271821 < yearNum \<and> yearNum < 275760"
  then have "getItemDate H item = Some (Date_UTC yearNum monthIndex 15)"
    by (simp add: getItemDate_fallback)
  then show "getItemDate H item = Some (UTCDate yearNum monthIndex 1209600000)"
    using a by (simp add: Date_UTC_15_regular)
  show "monthNameOf (UTCDate yearNum monthIndex 1209600000) = Str (substring03 (toUpperCase ms))"
    using a resolved_fields by blast
  show "fullYearOf (UTCDate yearNum monthIndex 1209600000) = Num (Fin (of_int yearNum))"
    by (simp add: fullYearOf_def)
next
  assume "find isValidDate (primaryDateColumns item) = None
        \<and> monthTextColumn item = Str ms
        \<and> (parseInt10 (toStr H (yearColumn item)) = None
            \<or> indexOf MONTH_NAMES (substring03 (toUpperCase ms)) = None)"
  then show "getItemDate H item = None"
    by (auto simp: getItemDate_fallback split: option.splits)
next
  assume "find isValidDate (primaryDateColumns item) = None
        \<and> (\<not> isString (monthTextColumn item) \<or> yearColumn item = Null \<or> yearColumn item = Undefined)"
  then show "getItemDate H item = None"
    by (auto simp: getItemDate_fallback isString_def split: jsval.splits)
qed (simp_all add: DriverOperator_priority)

lemma parseInt10_2024: "parseInt10 ''2024'' = Some 2024"
  by (simp add: parseInt10_def isWhiteSpace_def isDigit_def digitsValue_def)
lemma january_prefix: "substring03 (toUpperCase ''january'') = ''JAN''"
  by (simp add: substring03_def toUpperCase_def upperChars_def char_of_def bit_0)
lemma indexOf_JAN: "indexOf MONTH_NAMES ''JAN'' = Some 0"
  by (simp add: MONTH_NAMES_def)
lemma textDatedRow_no_date: "find isValidDate (primaryDateColumns textDatedRow) = None"
  by (simp add: primaryDateColumns_def textDatedRow_def obj_def isValidDate_def)
lemma endDatedRow_date: "find isValidDate (primaryDateColumns endDatedRow) = Some (DateV (UTCDate 2025 1 0))"
  by (simp add: primaryDateColumns_def endDatedRow_def obj_def isValidDate_def)
lemma textDatedRow_columns: "monthTextColumn textDatedRow = Str ''january''" "yearColumn textDatedRow = Num (Fin 2024)"
  by (simp_all add: monthTextColumn_def yearColumn_def textDatedRow_def obj_def js_nullish_def)

theorem date_resolution_order_witness:
  "find isValidDate (primaryDateColumns endDatedRow) = Some (DateV (UTCDate 2025 1 0))
   \<and> getItemDate plainHost endDatedRow = Some (UTCDate 2025 1 0)
   \<and> find isValidDate (primaryDateColumns textDatedRow) = None
   \<and> monthTextColumn textDatedRow = Str ''january''
   \<and> parseInt10 (toStr plainHost (yearColumn textDatedRow)) = Some 2024
   \<and> indexOf MONTH_NAMES (substring03 (toUpperCase ''january'')) = Some 0
   \<and> getItemDate plainHost textDatedRow = Some (UTCDate 2024 0 1209600000)
   \<and> monthNameOf (UTCDate 2024 0 1209600000) = Str ''JAN''
   \<and> fullYearOf (UTCDate 2024 0 1209600000) = Num (Fin 2024)
   \<and> truthy (conflictRow ''Month'')
   \<and> DriverOperator_itemMonthName plainHost conflictRow = Str ''JAN''"
proof -
  have y: "parseInt10 (toStr plainHost (yearColumn textDatedRow)) = Some 2024"
    by (simp add: textDatedRow_columns toStr_2024 parseInt10_2024)
  have i: "indexOf MONTH_NAMES (substring03 (toUpperCase ''january'')) = Some 0"
    by (simp add: january_prefix indexOf_JAN)
  have e: "getItemDate plainHost endDatedRow = Some (UTCDate 2025 1 0)"
    using date_resolution_order [where item = endDatedRow and H = plainHost and y = 2025 and m = 1 and r = 0] endDatedRow_date
    by blast
  have t: "getItemDate plainHost textDatedRow = Some (UTCDate 2024 0 1209600000)
           \<and> monthNameOf (UTCDate 2024 0 1209600000) = Str (substring03 (toUpperCase ''january''))
           \<and> fullYearOf (UTCDate 2024 0 1209600000) = Num (Fin (of_int 2024))"
    using date_resolution_order [where item = textDatedRow and H = plainHost and ms = "''january''"
                                   and yearNum = 2024 and monthIndex = 0] textDatedRow_no_date textDatedRow_columns y i
    by simp
  have c: "truthy (conflictRow ''Month'')"
    by (simp add: conflictRow_def obj_def truthy_def)
  have d: "DriverOperator_itemMonthName plainHost conflictRow
           = Str (substring03 (toUpperCase (toStr plainHost (conflictRow ''Month''))))"
    using date_resolution_order [where item = conflictRow and H = plainHost] c by blast
  have d': "DriverOperator_itemMonthName plainHost conflictRow = Str ''JAN''"
    unfolding d by (simp add: conflictRow_def obj_def toStr_Str toUpperCase_abbreviations substring03_def)
  show ?thesis
    using e t c d' y i textDatedRow_no_date endDatedRow_date textDatedRow_columns by (simp add: january_prefix)
qed

section \<open>The percentage of the month total\<close>

lemma FleetManagement_match_month:
  "Month filters \<noteq> ''All'' \<Longrightarrow> Business_Units filters \<noteq> ''All'' \<Longrightarrow>
   FleetManagement_match H filters item
   = (FleetManagement_monthFilter H filters item
      \<and> toStr H (item ''Business Units'') = Business_Units filters)"
  by (auto simp: FleetManagement_match_def FleetManagement_monthFilter_def Let_def)

lemma filterByBUAndDate_month:
  "month filters \<noteq> ''All'' \<Longrightarrow> businessUnit filters \<noteq> ''All'' \<Longrightarrow>
   filterByBUAndDate H filters item
   = (monthFilterForPercentage H filters item \<and> getBusinessUnit item = Str (businessUnit filters))"
  by (auto simp: filterByBUAndDate_def monthFilterForPercentage_def Let_def split: option.splits)

lemma FleetManagement_totalMonthAmount_sum:
  "FleetManagement_totalMonthAmount H data filters
   = sumSplitedAmount H (filter (FleetManagement_monthFilter H filters) data)"
  by (simp add: FleetManagement_totalMonthAmount_def sumSplitedAmount_def)

lemma totalMonthAmount_sum:
  "totalMonthAmount H allData shared
   = sumSplitedAmount H (filter (monthFilterForPercentage H shared) (Fleet_Management allData))"
  by (simp add: totalMonthAmount_def sumSplitedAmount_def)

lemma FleetManagement_totalAmount_sum:
  assumes "Month filters \<noteq> ''All''" and "Business_Units filters \<noteq> ''All''"
  shows "FleetManagement_totalAmount H data filters
         = sumSplitedAmount H
             (filter (\<lambda>item. FleetManagement_monthFilter H filters item
                               \<and> toStr H (item ''Business Units'') = Business_Units filters) data)"
proof -
  have "filter (FleetManagement_match H filters) data
        = filter (\<lambda>item. FleetManagement_monthFilter H filters item
                          \<and> toStr H (item ''Business Units'') = Business_Units filters) data"
    using assms by (intro filter_cong refl) (simp add: FleetManagement_match_month)
  then show ?thesis
    by (simp add: FleetManagement_totalAmount_def FleetManagement_filteredData_def sumSplitedAmount_def)
qed

lemma fleetManagementRevenue_sum:
  assumes "month shared \<noteq> ''All''" and "businessUnit shared \<noteq> ''All''"
  shows "fleetManagementRevenue H allData shared
         = sumSplitedAmount H
             (filter (\<lambda>item. monthFilterForPercentage H shared item
                               \<and> getBusinessUnit item = Str (businessUnit shared))
                (Fleet_Management allData))"
proof -
  have "filter (filterByBUAndDate H shared) (Fleet_Management allData)
        = filter (\<lambda>item. monthFilterForPercentage H shared item
                          \<and> getBusinessUnit item = Str (businessUnit shared)) (Fleet_Management allData)"
    using assms by (intro filter_cong refl) (simp add: filterByBUAndDate_month)
  then show ?thesis
    by (simp add: fleetManagementRevenue_def filtered_fleetMgmt_def sumSplitedAmount_def)
qed

lemma FleetManagement_percentage_sums:
  "FleetManagement_percentage H data filters
   = (if Month filters \<noteq> ''All'' \<and> Business_Units filters \<noteq> ''All''
         \<and> js_gt H (sumSplitedAmount H (filter (FleetManagement_monthFilter H filters) data)) (Num (Fin 0))
      then js_mul H
             (js_div H
                (sumSplitedAmount H
                   (filter (\<lambda>item. FleetManagement_monthFilter H filters item
                                     \<and> toStr H (item ''Business Units'') = Business_Units filters) data))
                (sumSplitedAmount H (filter (FleetManagement_monthFilter H filters) data)))
             (Num (Fin 100))
      else Num (Fin 0))"
proof (cases "Month filters \<noteq> ''All'' \<and> Business_Units filters \<noteq> ''All''")
  case True
  then show ?thesis
    by (simp add: FleetManagement_percentage_def FleetManagement_totalAmount_sum
        FleetManagement_totalMonthAmount_sum [symmetric])
next
  case False
  then show ?thesis by (auto simp: FleetManagement_percentage_def)
qed

lemma fleetManagementPercentage_sums:
  "fleetManagementPercentage H allData shared
   = (if month shared \<noteq> ''All'' \<and> businessUnit shared \<noteq> ''All''
         \<and> js_gt H (sumSplitedAmount H (filter (monthFilterForPercentage H shared) (Fleet_Management allData)))
                   (Num (Fin 0))
      then js_mul H
             (js_div H
                (sumSplitedAmount H
                   (filter (\<lambda>item. monthFilterForPercentage H shared item
                                     \<and> getBusinessUnit item = Str (businessUnit shared))
                      (Fleet_Management allData)))
                (sumSplitedAmount H (filter (monthFilterForPercentage H shared) (Fleet_Management allData))))
             (Num (Fin 100))
      else Num (Fin 0))"
proof (cases "month shared \<noteq> ''All'' \<and> businessUnit shared \<noteq> ''All''")
  case True
  then show ?thesis
    by (simp add: fleetManagementPercentage_def fleetManagementRevenue_sum
        totalMonthAmount_sum [symmetric])
next
  case False
  then show ?thesis by (auto simp: fleetManagementPercentage_def)
qed

lemma percentage_finite_cases:
  "Month filters \<noteq> ''All'' \<and> Business_Units filters \<noteq> ''All''
     \<and> FleetManagement_totalAmount H data filters = Num (Fin n)
     \<and> FleetManagement_totalMonthAmount H data filters = Num (Fin d) \<and> 0 < d
   \<Longrightarrow> FleetManagement_percentage H data filters = Num (num_mul (toDouble (n / d)) (Fin 100))"
  "month shared \<noteq> ''All'' \<and> businessUnit shared \<noteq> ''All''
     \<and> fleetManagementRevenue H allData shared = Num (Fin n')
     \<and> totalMonthAmount H allData shared = Num (Fin d') \<and> 0 < d'
   \<Longrightarrow> fleetManagementPercentage H allData shared = Num (num_mul (toDouble (n' / d')) (Fin 100))"
  by (simp_all add: FleetManagement_percentage_def fleetManagementPercentage_def js_gt_Fin
      js_mul_def js_div_def toNumber_def)

lemma percentage_zero_cases:
  "Month filters = ''All'' \<or> Business_Units filters = ''All''
     \<or> \<not> js_gt H (FleetManagement_totalMonthAmount H data filters) (Num (Fin 0))
   \<Longrightarrow> FleetManagement_percentage H data filters = Num (Fin 0)"
  "month sf = ''All'' \<or> businessUnit sf = ''All''
     \<or> \<not> js_gt H (totalMonthAmount H allData sf) (Num (Fin 0))
   \<Longrightarrow> fleetManagementPercentage H allData sf = Num (Fin 0)"
  by (auto simp: FleetManagement_percentage_def fleetManagementPercentage_def)

lemma monthFilter_examples:
  "FleetManagement_monthFilter H januaryAlpha
     (obj [(''Month'', DateV (UTCDate 2024 0 0)), (''Business Units'', Str b), (''Splited Amount'', a)])"
  "\<not> FleetManagement_monthFilter H januaryAlpha
     (obj [(''Month'', DateV (UTCDate 2024 (Suc 0) 0)), (''Business Units'', Str b), (''Splited Amount'', a)])"
  by (simp_all add: FleetManagement_monthFilter_def januaryAlpha_def obj_def getMonthName_def getYear_def
      isValidDate_def monthNameOf_def fullYearOf_def arrayGet_def MONTH_NAMES_def toStr_2024)

lemma monthFilterForPercentage_examples:
  "monthFilterForPercentage H sharedJanuaryAlpha
     (obj [(''Month'', DateV (UTCDate 2024 0 0)), (''Business Units'', Str b), (''Splited Amount'', a)])"
  "\<not> monthFilterForPercentage H sharedJanuaryAlpha
     (obj [(''Month'', DateV (UTCDate 2024 (Suc 0) 0)), (''Business Units'', Str b), (''Splited Amount'', a)])"
  by (simp_all add: monthFilterForPercentage_def sharedJanuaryAlpha_def obj_def getItemDate_def dateOf_def
      isValidDate_def monthNameOf_def fullYearOf_def arrayGet_def MONTH_NAMES_def toStr_2024)

lemma businessUnit_examples:
  "toStr H (obj [(''Month'', m), (''Business Units'', Str b), (''Splited Amount'', a)] ''Business Units'') = b"
  "getBusinessUnit (obj [(''Month'', m), (''Business Units'', Str b), (''Splited Amount'', a)]) = Str b"
  "obj [(''Month'', m), (''Business Units'', Str b), (''Splited Amount'', a)] ''Splited Amount'' = a"
  by (simp_all add: obj_def toStr_def getBusinessUnit_def js_nullish_def)

lemma januaryAlpha_fields:
  "Month januaryAlpha \<noteq> ''All''" "Business_Units januaryAlpha \<noteq> ''All''"
  "Business_Units januaryAlpha = ''Alpha''"
  "month sharedJanuaryAlpha \<noteq> ''All''" "businessUnit sharedJanuaryAlpha \<noteq> ''All''"
  "businessUnit sharedJanuaryAlpha = ''Alpha''"
  by (simp_all add: januaryAlpha_def sharedJanuaryAlpha_def)

lemma creditRows_view:
  "FleetManagement_totalMonthAmount H creditRows januaryAlpha = Num (Fin (- 10))"
  "FleetManagement_totalAmount H creditRows januaryAlpha = Num (Fin (- 10))"
  "FleetManagement_percentage H creditRows januaryAlpha = Num (Fin 0)"
proof -
  show d: "FleetManagement_totalMonthAmount H creditRows januaryAlpha = Num (Fin (- 10))"
    by (simp add: FleetManagement_totalMonthAmount_def creditRows_def monthFilter_examples
        businessUnit_examples js_Fin toDouble_small)
  show "FleetManagement_totalAmount H creditRows januaryAlpha = Num (Fin (- 10))"
    by (simp add: FleetManagement_totalAmount_sum januaryAlpha_fields sumSplitedAmount_def creditRows_def
        monthFilter_examples businessUnit_examples js_Fin toDouble_small)
  show "FleetManagement_percentage H creditRows januaryAlpha = Num (Fin 0)"
    by (rule percentage_zero_cases) (simp add: d js_gt_Fin)
qed

lemma creditRows_dashboard:
  "fleetManagementPercentage H (fleetData creditRows) sharedJanuaryAlpha = Num (Fin 0)"
proof -
  have "totalMonthAmount H (fleetData creditRows) sharedJanuaryAlpha = Num (Fin (- 10))"
    by (simp add: totalMonthAmount_def fleetData_def creditRows_def monthFilterForPercentage_examples
        businessUnit_examples js_Fin toDouble_small)
  then show ?thesis
    by (intro percentage_zero_cases) (simp add: js_gt_Fin)
qed

text \<open>
  C4, as stated, fails: with a specific month and business unit selected and a month total
  that is neither empty nor zero but negative (-10), the ratio of the claim is 100, yet the
  percentage of the Fleet Management view and of the dashboard is 0.
\<close>

theorem negative_month_total_gives_zero_percent:
  "FleetManagement_totalMonthAmount plainHost creditRows januaryAlpha = Num (Fin (- 10))
   \<and> js_mul plainHost
        (js_div plainHost (FleetManagement_totalAmount plainHost creditRows januaryAlpha)
                          (FleetManagement_totalMonthAmount plainHost creditRows januaryAlpha))
        (Num (Fin 100)) = Num (Fin 100)
   \<and> FleetManagement_percentage plainHost creditRows januaryAlpha = Num (Fin 0)
   \<and> fleetManagementPercentage plainHost (fleetData creditRows) sharedJanuaryAlpha = Num (Fin 0)"
  by (simp add: creditRows_view creditRows_dashboard js_Fin toDouble_small)

lemma three_tenths:
  "toDouble (3 / 10) = Fin (5404319552844595 / 2 ^ 54)"
  "toDouble (5404319552844595 / 2 ^ 54 * 100) = Fin 30"
proof -
  show "toDouble (3 / 10) = Fin (5404319552844595 / 2 ^ 54)"
    by (simp add: toDouble_binade [where k = "- 2"] pow2_def roundHalfEven_def Let_def floor_numeral_divide)
  show "toDouble (5404319552844595 / 2 ^ 54 * 100) = Fin 30"
    by (simp add: toDouble_binade [where k = 4] pow2_def roundHalfEven_def Let_def floor_numeral_divide)
qed

lemma fleetRows_view:
  "FleetManagement_totalMonthAmount H fleetRows januaryAlpha = Num (Fin 100)"
  "FleetManagement_totalAmount H fleetRows januaryAlpha = Num (Fin 30)"
  "totalMonthAmount H (fleetData fleetRows) sharedJanuaryAlpha = Num (Fin 100)"
  "fleetManagementRevenue H (fleetData fleetRows) sharedJanuaryAlpha = Num (Fin 30)"
proof -
  show "FleetManagement_totalMonthAmount H fleetRows januaryAlpha = Num (Fin 100)"
    by (simp add: FleetManagement_totalMonthAmount_def fleetRows_def monthFilter_examples
        businessUnit_examples js_Fin toDouble_small)
  show "FleetManagement_totalAmount H fleetRows januaryAlpha = Num (Fin 30)"
    by (simp add: FleetManagement_totalAmount_sum januaryAlpha_fields sumSplitedAmount_def fleetRows_def
        monthFilter_examples businessUnit_examples js_Fin toDouble_small)
  show "totalMonthAmount H (fleetData fleetRows) sharedJanuaryAlpha = Num (Fin 100)"
    by (simp add: totalMonthAmount_def fleetData_def fleetRows_def monthFilterForPercentage_examples
        businessUnit_examples js_Fin toDouble_small)
  show "fleetManagementRevenue H (fleetData fleetRows) sharedJanuaryAlpha = Num (Fin 30)"
    by (simp add: fleetManagementRevenue_sum januaryAlpha_fields sumSplitedAmount_def fleetData_def
        fleetRows_def monthFilterForPercentage_examples businessUnit_examples js_Fin toDouble_small)
qed

text \<open>
  C4, amended.  The percentage of the Fleet Management view and of the dashboard is 0
  when the month is "All", when the business unit is "All", or when the month total is not
  greater than 0 (so also when it is negative).  Otherwise it is the revenue of the rows
  matching month, year and business unit, divided by the revenue of the rows matching the
  same month and year whatever their business unit, times 100; each revenue is the
  floating-point sum that the code accumulates, and for a finite revenue n and a positive
  finite month total d the result is the double nearest to n / d multiplied by 100 and
  rounded again.
\<close>

theorem fleet_percentage_of_month_total:
  "FleetManagement_percentage H data filters
     = (if Month filters \<noteq> ''All'' \<and> Business_Units filters \<noteq> ''All''
           \<and> js_gt H (sumSplitedAmount H (filter (FleetManagement_monthFilter H filters) data)) (Num (Fin 0))
        then js_mul H
               (js_div H
                  (sumSplitedAmount H
                     (filter (\<lambda>item. FleetManagement_monthFilter H filters item
                                       \<and> toStr H (item ''Business Units'') = Business_Units filters) data))
                  (sumSplitedAmount H (filter (FleetManagement_monthFilter H filters) data)))
               (Num (Fin 100))
        else Num (Fin 0))
   \<and> fleetManagementPercentage H allData shared
     = (if month shared \<noteq> ''All'' \<and> businessUnit shared \<noteq> ''All''
           \<and> js_gt H (sumSplitedAmount H (filter (monthFilterForPercentage H shared) (Fleet_Management allData)))
                     (Num (Fin 0))
        then js_mul H
               (js_div H
                  (sumSplitedAmount H
                     (filter (\<lambda>item. monthFilterForPercentage H shared item
                                       \<and> getBusinessUnit item = Str (businessUnit shared))
                        (Fleet_Management allData)))
                  (sumSplitedAmount H (filter (monthFilterForPercentage H shared) (Fleet_Management allData))))
               (Num (Fin 100))
        else Num (Fin 0))
   \<and> (Month filters \<noteq> ''All'' \<and> Business_Units filters \<noteq> ''All''
        \<and> FleetManagement_totalAmount H data filters = Num (Fin n)
        \<and> FleetManagement_totalMonthAmount H data filters = Num (Fin d) \<and> 0 < d
      \<longrightarrow> FleetManagement_percentage H data filters = Num (num_mul (toDouble (n / d)) (Fin 100)))
   \<and> (month shared \<noteq> ''All'' \<and> businessUnit shared \<noteq> ''All''
        \<and> fleetManagementRevenue H allData shared = Num (Fin n')
        \<and> totalMonthAmount H allData shared = Num (Fin d') \<and> 0 < d'
      \<longrightarrow> fleetManagementPercentage H allData shared = Num (num_mul (toDouble (n' / d')) (Fin 100)))
   \<and> (Month filters = ''All'' \<or> Business_Units filters = ''All''
        \<or> \<not> js_gt H (FleetManagement_totalMonthAmount H data filters) (Num (Fin 0))
      \<longrightarrow> FleetManagement_percentage H data filters = Num (Fin 0))
   \<and> (month shared = ''All'' \<or> businessUnit shared = ''All''
        \<or> \<not> js_gt H (totalMonthAmount H allData shared) (Num (Fin 0))
      \<longrightarrow> fleetManagementPercentage H allData shared = Num (Fin 0))"
  by (intro conjI FleetManagement_percentage_sums fleetManagementPercentage_sums)
     (blast intro: percentage_finite_cases percentage_zero_cases)+

theorem fleet_percentage_of_month_total_witness:
  "FleetManagement_totalAmount plainHost fleetRows januaryAlpha = Num (Fin 30)
   \<and> FleetManagement_totalMonthAmount plainHost fleetRows januaryAlpha = Num (Fin 100)
   \<and> FleetManagement_percentage plainHost fleetRows januaryAlpha = Num (Fin 30)
   \<and> fleetManagementPercentage plainHost (fleetData fleetRows) sharedJanuaryAlpha = Num (Fin 30)
   \<and> FleetManagement_percentage plainHost fleetRows (januaryAlpha\<lparr>Business_Units := ''All''\<rparr>) = Num (Fin 0)
   \<and> fleetManagementPercentage plainHost (fleetData fleetRows) (sharedJanuaryAlpha\<lparr>month := ''All''\<rparr>)
       = Num (Fin 0)"
proof -
  have z: "FleetManagement_percentage plainHost fleetRows (januaryAlpha\<lparr>Business_Units := ''All''\<rparr>)
           = Num (Fin 0)"
    using fleet_percentage_of_month_total
            [of plainHost fleetRows "januaryAlpha\<lparr>Business_Units := ''All''\<rparr>"
                "fleetData fleetRows" "sharedJanuaryAlpha\<lparr>month := ''All''\<rparr>"]
    by simp
  have z': "fleetManagementPercentage plainHost (fleetData fleetRows) (sharedJanuaryAlpha\<lparr>month := ''All''\<rparr>)
            = Num (Fin 0)"
    using fleet_percentage_of_month_total
            [of plainHost fleetRows "januaryAlpha\<lparr>Business_Units := ''All''\<rparr>"
                "fleetData fleetRows" "sharedJanuaryAlpha\<lparr>month := ''All''\<rparr>"]
    by simp
  note T = fleet_percentage_of_month_total
             [where H = plainHost and data = fleetRows and filters = januaryAlpha
                and allData = "fleetData fleetRows" and shared = sharedJanuaryAlpha
                and n = 30 and d = 100 and n' = 30 and d' = 100]
  have pos: "(0::rat) < 100" by simp
  have v: "FleetManagement_percentage plainHost fleetRows januaryAlpha
           = Num (num_mul (toDouble (30 / 100)) (Fin 100))"
    using T fleetRows_view [of plainHost] januaryAlpha_fields pos by blast
  have w: "fleetManagementPercentage plainHost (fleetData fleetRows) sharedJanuaryAlpha
           = Num (num_mul (toDouble (30 / 100)) (Fin 100))"
    using T fleetRows_view [of plainHost] januaryAlpha_fields pos by blast
  have e: "num_mul (toDouble (30 / 100)) (Fin 100) = Fin 30"
    using three_tenths by simp
  show ?thesis
    using z z' v [unfolded e] w [unfolded e] by (simp add: fleetRows_view)
qed

section \<open>Job-card cost on the dashboard\<close>

lemma filterJobCard_ignores_Expense:
  "filterJobCardByBUAndDate H filters (i(''Expense'' := v)) = filterJobCardByBUAndDate H filters i"
  by (simp add: filterJobCardByBUAndDate_def getBusinessUnit_def)

lemma filtered_jobCard_Expense:
  "filtered_jobCard H (allData\<lparr>Job_Card := map (\<lambda>i. i(''Expense'' := e i)) (Job_Card allData)\<rparr>) filters
   = map (\<lambda>i. i(''Expense'' := e i)) (filtered_jobCard H allData filters)"
  by (simp add: filtered_jobCard_def filter_map comp_def filterJobCard_ignores_Expense)

lemma jobCardRevenue_ignores_Expense:
  "jobCardRevenue H (allData\<lparr>Job_Card := map (\<lambda>i. i(''Expense'' := e i)) (Job_Card allData)\<rparr>) filters
   = jobCardRevenue H allData filters"
  by (simp add: jobCardRevenue_def filtered_jobCard_Expense foldl_map)

lemma jobCardProfit_ignores_Expense:
  "jobCardProfit H (allData\<lparr>Job_Card := map (\<lambda>i. i(''Expense'' := e i)) (Job_Card allData)\<rparr>) filters
   = jobCardProfit H allData filters"
  by (simp add: jobCardProfit_def filtered_jobCard_Expense foldl_map)

lemma filterJobCard_allShared: "filterJobCardByBUAndDate H allShared item"
  by (simp add: filterJobCardByBUAndDate_def allShared_def)

lemma filtered_jobCard_allShared: "filtered_jobCard H allData allShared = Job_Card allData"
  by (simp add: filtered_jobCard_def filterJobCard_allShared)

text \<open>The doubles 1.7 and 0.4, their difference, and the difference plus 0.4.\<close>

lemma roundings_of_tenths:
  "toDouble (7656119366529843 / 2 ^ 52) = Fin (7656119366529843 / 2 ^ 52)"
  "toDouble (7205759403792794 / 2 ^ 54) = Fin (7205759403792794 / 2 ^ 54)"
  "toDouble (7656119366529843 / 2 ^ 52 - 7205759403792794 / 2 ^ 54) = Fin (5854679515581644 / 2 ^ 52)"
  "toDouble (5854679515581644 / 2 ^ 52 + 7205759403792794 / 2 ^ 54) = Fin (7656119366529842 / 2 ^ 52)"
proof -
  show "toDouble (7656119366529843 / 2 ^ 52) = Fin (7656119366529843 / 2 ^ 52)"
    by (simp add: toDouble_binade [where k = 0] pow2_def roundHalfEven_def Let_def floor_numeral_divide)
  show "toDouble (7205759403792794 / 2 ^ 54) = Fin (7205759403792794 / 2 ^ 54)"
    by (simp add: toDouble_binade [where k = "- 2"] pow2_def roundHalfEven_def Let_def floor_numeral_divide)
  show "toDouble (7656119366529843 / 2 ^ 52 - 7205759403792794 / 2 ^ 54) = Fin (5854679515581644 / 2 ^ 52)"
    by (simp add: toDouble_binade [where k = 0] pow2_def roundHalfEven_def Let_def floor_numeral_divide)
  show "toDouble (5854679515581644 / 2 ^ 52 + 7205759403792794 / 2 ^ 54) = Fin (7656119366529842 / 2 ^ 52)"
    by (simp add: toDouble_binade [where k = 0] pow2_def roundHalfEven_def Let_def floor_numeral_divide)
qed

lemma tenthsData_totals:
  "jobCardRevenue H tenthsData allShared = Num (Fin (7656119366529843 / 2 ^ 52))"
  "jobCardProfit H tenthsData allShared = Num (Fin (7205759403792794 / 2 ^ 54))"
proof -
  show "jobCardRevenue H tenthsData allShared = Num (Fin (7656119366529843 / 2 ^ 52))"
    using roundings_of_tenths(1)
    by (simp add: jobCardRevenue_def filtered_jobCard_allShared tenthsData_def obj_def js_or_def truthy_def
        js_add_Fin)
  show "jobCardProfit H tenthsData allShared = Num (Fin (7205759403792794 / 2 ^ 54))"
    using roundings_of_tenths(2)
    by (simp add: jobCardProfit_def filtered_jobCard_allShared tenthsData_def obj_def js_or_def truthy_def
        js_add_Fin)
qed

text \<open>
  C5, as stated, fails: the cost is a floating-point difference, so it is not exactly
  revenue minus profit and cost plus profit is not the revenue.  For a single job-card row
  with the amount 1.7 and the profit 0.4 the cost is 1.2999999999999998, which is not the
  difference of the two doubles, and cost plus profit is 1.6999999999999997, not 1.7.
\<close>

theorem cost_plus_profit_is_not_revenue:
  "jobCardRevenue plainHost tenthsData allShared = Num (Fin (7656119366529843 / 2 ^ 52))
   \<and> jobCardProfit plainHost tenthsData allShared = Num (Fin (7205759403792794 / 2 ^ 54))
   \<and> jobCardCost plainHost tenthsData allShared = Num (Fin (5854679515581644 / 2 ^ 52))
   \<and> jobCardCost plainHost tenthsData allShared
       \<noteq> Num (Fin (7656119366529843 / 2 ^ 52 - 7205759403792794 / 2 ^ 54))
   \<and> js_add plainHost (jobCardCost plainHost tenthsData allShared)
        (jobCardProfit plainHost tenthsData allShared) = Num (Fin (7656119366529842 / 2 ^ 52))
   \<and> js_add plainHost (jobCardCost plainHost tenthsData allShared)
        (jobCardProfit plainHost tenthsData allShared) \<noteq> jobCardRevenue plainHost tenthsData allShared"
proof -
  have c: "jobCardCost plainHost tenthsData allShared = Num (Fin (5854679515581644 / 2 ^ 52))"
    using roundings_of_tenths(3) by (simp add: jobCardCost_def tenthsData_totals js_sub_Fin)
  have s: "js_add plainHost (jobCardCost plainHost tenthsData allShared)
             (jobCardProfit plainHost tenthsData allShared) = Num (Fin (7656119366529842 / 2 ^ 52))"
    using roundings_of_tenths(4) by (simp add: c tenthsData_totals js_add_Fin)
  show ?thesis
    unfolding s unfolding c tenthsData_totals by simp
qed

text \<open>
  C5, amended.  The job-card cost of the dashboard is the one floating-point subtraction
  of the job-card profit from the job-card revenue, whatever the rows hold: for a finite
  revenue r and a finite profit p it is the double nearest to r - p, so cost plus profit
  gives back the revenue only up to rounding.  The cost does not change when the Expense
  column of the rows is replaced by anything else: that column is never summed into it.
\<close>

theorem jobCard_cost_is_rounded_difference:
  "jobCardCost H allData filters
     = js_sub H (jobCardRevenue H allData filters) (jobCardProfit H allData filters)
   \<and> jobCardCost H (allData\<lparr>Job_Card := map (\<lambda>i. i(''Expense'' := e i)) (Job_Card allData)\<rparr>) filters
       = jobCardCost H allData filters
   \<and> (jobCardRevenue H allData filters = Num (Fin r) \<and> jobCardProfit H allData filters = Num (Fin p)
       \<longrightarrow> jobCardCost H allData filters = Num (toDouble (r - p)))"
proof (intro conjI impI)
  show "jobCardCost H allData filters
        = js_sub H (jobCardRevenue H allData filters) (jobCardProfit H allData filters)"
    by (simp add: jobCardCost_def)
  show "jobCardCost H (allData\<lparr>Job_Card := map (\<lambda>i. i(''Expense'' := e i)) (Job_Card allData)\<rparr>) filters
        = jobCardCost H allData filters"
    by (simp only: jobCardCost_def jobCardRevenue_ignores_Expense jobCardProfit_ignores_Expense)
next
  assume "jobCardRevenue H allData filters = Num (Fin r) \<and> jobCardProfit H allData filters = Num (Fin p)"
  then show "jobCardCost H allData filters = Num (toDouble (r - p))"
    by (simp add: jobCardCost_def js_sub_Fin)
qed

lemma jobCardData_totals:
  "jobCardRevenue H jobCardData allShared = Num (Fin 10)"
  "jobCardProfit H jobCardData allShared = Num (Fin 9)"
  by (simp_all add: jobCardRevenue_def jobCardProfit_def filtered_jobCard_allShared jobCardData_def
      jobCardRows_def obj_def js_or_def truthy_def js_add_Fin toDouble_small)

theorem jobCard_cost_is_rounded_difference_witness:
  "jobCardRevenue plainHost jobCardData allShared = Num (Fin 10)
   \<and> jobCardProfit plainHost jobCardData allShared = Num (Fin 9)
   \<and> jobCardCost plainHost jobCardData allShared = Num (Fin 1)
   \<and> jobCardCost plainHost
        (jobCardData\<lparr>Job_Card := map (\<lambda>i. i(''Expense'' := Num (Fin 1000))) (Job_Card jobCardData)\<rparr>)
        allShared = Num (Fin 1)"
proof -
  note T = jobCard_cost_is_rounded_difference
             [where H = plainHost and allData = jobCardData and filters = allShared
                and e = "\<lambda>i. Num (Fin 1000)" and r = 10 and p = 9]
  have c: "jobCardCost plainHost jobCardData allShared = Num (Fin 1)"
    using T by (simp add: jobCardData_totals js_sub_Fin toDouble_small)
  have e: "jobCardCost plainHost
             (jobCardData\<lparr>Job_Card := map (\<lambda>i. i(''Expense'' := Num (Fin 1000))) (Job_Card jobCardData)\<rparr>)
             allShared = Num (Fin 1)"
    using T c by metis
  show ?thesis
    using c e by (simp add: jobCardData_totals)
qed

section \<open>Resetting a stale selection\<close>

lemma set_foldl_setAdd: "set (foldl setAdd acc xs) = set acc \<union> set xs"
  by (induction xs arbitrary: acc) auto

lemma set_optionList: "set (optionList xs) = insert ''All'' (set xs)"
  by (simp add: optionList_def setFrom_def set_foldl_setAdd)

lemma FleetManagement_effect_resets:
  "Business_Units filters \<noteq> ''All''
   \<and> Business_Units filters \<notin> set (FleetManagement_businessUnits H data filters)
   \<longrightarrow> Business_Units (FleetManagement_effect H data filters) = ''All''"
  by (simp add: FleetManagement_effect_def)

lemma FleetManagement_effect_settled:
  "FleetManagement_effect H data filters = filters
   \<longrightarrow> Business_Units filters = ''All''
       \<or> Business_Units filters \<in> set (FleetManagement_businessUnits H data filters)"
proof (intro impI)
  assume s: "FleetManagement_effect H data filters = filters"
  show "Business_Units filters = ''All''
       \<or> Business_Units filters \<in> set (FleetManagement_businessUnits H data filters)"
  proof (rule ccontr)
    assume "\<not> ?thesis"
    then have "Business_Units (FleetManagement_effect H data filters) = ''All''"
      by (simp add: FleetManagement_effect_def)
    with s \<open>\<not> ?thesis\<close> show False by simp
  qed
qed

lemma JobCardView_effects_fields:
  "Business_Units (JobCardView_effects H data filters s)
   = (if Business_Units filters \<noteq> ''All''
         \<and> Business_Units filters \<notin> set (JobCardView_businessUnits H data filters s)
      then ''All'' else Business_Units filters)"
  "Cluster (JobCardView_effects H data filters s)
   = (if Cluster filters \<noteq> ''All'' \<and> Cluster filters \<notin> set (JobCardView_clusters H data filters s)
      then ''All'' else Cluster filters)"
  by (simp_all add: JobCardView_effects_def Let_def)

lemma InternalFleetsView_effects_fields:
  "Business_Units (InternalFleetsView_effects H data filters s)
   = (if Business_Units filters \<noteq> ''All''
         \<and> Business_Units filters \<notin> set (InternalFleetsView_businessUnits H data filters s)
      then ''All'' else Business_Units filters)"
  "Fleet_Category (InternalFleetsView_effects H data filters s)
   = (if Fleet_Category filters \<noteq> ''All''
         \<and> Fleet_Category filters \<notin> set (InternalFleetsView_fleetCategories H data filters s)
      then ''All'' else Fleet_Category filters)"
  by (simp_all add: InternalFleetsView_effects_def Let_def)

lemma JobCardView_effects_settled:
  assumes "JobCardView_effects H data filters s = filters"
  shows "(Business_Units filters = ''All''
          \<or> Business_Units filters \<in> set (JobCardView_businessUnits H data filters s))
         \<and> (Cluster filters = ''All'' \<or> Cluster filters \<in> set (JobCardView_clusters H data filters s))"
proof -
  have "Business_Units (JobCardView_effects H data filters s) = Business_Units filters"
       "Cluster (JobCardView_effects H data filters s) = Cluster filters"
    using assms by simp_all
  then show ?thesis
    unfolding JobCardView_effects_fields by (auto split: if_splits)
qed

lemma InternalFleetsView_effects_settled:
  assumes "InternalFleetsView_effects H data filters s = filters"
  shows "(Business_Units filters = ''All''
          \<or> Business_Units filters \<in> set (InternalFleetsView_businessUnits H data filters s))
         \<and> (Fleet_Category filters = ''All''
            \<or> Fleet_Category filters \<in> set (InternalFleetsView_fleetCategories H data filters s))"
proof -
  have "Business_Units (InternalFleetsView_effects H data filters s) = Business_Units filters"
       "Fleet_Category (InternalFleetsView_effects H data filters s) = Fleet_Category filters"
    using assms by simp_all
  then show ?thesis
    unfolding InternalFleetsView_effects_fields by (auto split: if_splits)
qed

text \<open>
  C6.  In the Fleet Management, Job Card and Internal Fleets views, the effects that follow
  a recomputation reset to "All" every dimension whose selection is not "All" and is absent
  from the option list just computed for it; and in a settled state, one that the effects
  leave unchanged, every selection is "All" or a member of its option list.
\<close>

theorem stale_selection_is_reset:
  "(Business_Units fm \<noteq> ''All'' \<and> Business_Units fm \<notin> set (FleetManagement_businessUnits H fleet fm)
      \<longrightarrow> Business_Units (FleetManagement_effect H fleet fm) = ''All'')
   \<and> (FleetManagement_effect H fleet fm = fm
      \<longrightarrow> Business_Units fm = ''All'' \<or> Business_Units fm \<in> set (FleetManagement_businessUnits H fleet fm))
   \<and> (Business_Units jc \<noteq> ''All'' \<and> Business_Units jc \<notin> set (JobCardView_businessUnits H jobCards jc jcSearch)
      \<longrightarrow> Business_Units (JobCardView_effects H jobCards jc jcSearch) = ''All'')
   \<and> (Cluster jc \<noteq> ''All'' \<and> Cluster jc \<notin> set (JobCardView_clusters H jobCards jc jcSearch)
      \<longrightarrow> Cluster (JobCardView_effects H jobCards jc jcSearch) = ''All'')
   \<and> (JobCardView_effects H jobCards jc jcSearch = jc
      \<longrightarrow> (Business_Units jc = ''All'' \<or> Business_Units jc \<in> set (JobCardView_businessUnits H jobCards jc jcSearch))
          \<and> (Cluster jc = ''All'' \<or> Cluster jc \<in> set (JobCardView_clusters H jobCards jc jcSearch)))
   \<and> (Business_Units fl \<noteq> ''All''
        \<and> Business_Units fl \<notin> set (InternalFleetsView_businessUnits H vehicles fl ifSearch)
      \<longrightarrow> Business_Units (InternalFleetsView_effects H vehicles fl ifSearch) = ''All'')
   \<and> (Fleet_Category fl \<noteq> ''All''
        \<and> Fleet_Category fl \<notin> set (InternalFleetsView_fleetCategories H vehicles fl ifSearch)
      \<longrightarrow> Fleet_Category (InternalFleetsView_effects H vehicles fl ifSearch) = ''All'')
   \<and> (InternalFleetsView_effects H vehicles fl ifSearch = fl
      \<longrightarrow> (Business_Units fl = ''All''
           \<or> Business_Units fl \<in> set (InternalFleetsView_businessUnits H vehicles fl ifSearch))
          \<and> (Fleet_Category fl = ''All''
             \<or> Fleet_Category fl \<in> set (InternalFleetsView_fleetCategories H vehicles fl ifSearch)))"
  using FleetManagement_effect_resets [of fm H fleet] FleetManagement_effect_settled [of H fleet fm]
        JobCardView_effects_settled [of H jobCards jc jcSearch]
        InternalFleetsView_effects_settled [of H vehicles fl ifSearch]
  by (simp add: JobCardView_effects_fields InternalFleetsView_effects_fields)

lemma fleet_options_january:
  "set (FleetManagement_businessUnits H fleetRows (januaryAlpha\<lparr>Business_Units := b\<rparr>))
   = {''All'', ''Alpha'', ''Beta''}"
  by (auto simp: FleetManagement_businessUnits_def set_optionList FleetManagement_dateMatch_def
      januaryAlpha_def fleetRows_def obj_def getMonthName_def getYear_def isValidDate_def monthNameOf_def
      fullYearOf_def arrayGet_def MONTH_NAMES_def toStr_2024 truthy_def toStr_Str)

lemma jobCard_options_all:
  "set (JobCardView_businessUnits H jobCardRows (allJobCard\<lparr>Business_Units := b\<rparr>) [])
   = {''All'', ''Alpha'', ''Beta''}"
  by (auto simp: JobCardView_businessUnits_def set_optionList JobCardView_baseMatch_def
      allJobCard_def jobCardRows_def obj_def truthy_def toStr_def toLowerCase_def trim_def)

lemma vehicle_options_all:
  "set (InternalFleetsView_fleetCategories H vehicleRows (allInternal\<lparr>Fleet_Category := b\<rparr>) []) = {''All''}"
  by (auto simp: InternalFleetsView_fleetCategories_def set_optionList InternalFleetsView_baseMatch_def
      allInternal_def vehicleRows_def obj_def truthy_def toStr_def toLowerCase_def trim_def)

theorem stale_selection_is_reset_witness:
  "Business_Units (januaryAlpha\<lparr>Business_Units := ''Gamma''\<rparr>) \<noteq> ''All''
   \<and> ''Gamma'' \<notin> set (FleetManagement_businessUnits plainHost fleetRows
                          (januaryAlpha\<lparr>Business_Units := ''Gamma''\<rparr>))
   \<and> Business_Units (FleetManagement_effect plainHost fleetRows (januaryAlpha\<lparr>Business_Units := ''Gamma''\<rparr>))
       = ''All''
   \<and> ''Gamma'' \<notin> set (JobCardView_businessUnits plainHost jobCardRows
                          (allJobCard\<lparr>Business_Units := ''Gamma''\<rparr>) [])
   \<and> Business_Units (JobCardView_effects plainHost jobCardRows (allJobCard\<lparr>Business_Units := ''Gamma''\<rparr>) [])
       = ''All''
   \<and> ''Heavy'' \<notin> set (InternalFleetsView_fleetCategories plainHost vehicleRows
                          (allInternal\<lparr>Fleet_Category := ''Heavy''\<rparr>) [])
   \<and> Fleet_Category (InternalFleetsView_effects plainHost vehicleRows
                       (allInternal\<lparr>Fleet_Category := ''Heavy''\<rparr>) []) = ''All''
   \<and> FleetManagement_effect plainHost fleetRows januaryAlpha = januaryAlpha
   \<and> Business_Units januaryAlpha \<in> set (FleetManagement_businessUnits plainHost fleetRows januaryAlpha)"
proof -
  have j: "januaryAlpha\<lparr>Business_Units := ''Alpha''\<rparr> = januaryAlpha"
    by (simp add: januaryAlpha_def)
  have o: "set (FleetManagement_businessUnits plainHost fleetRows januaryAlpha) = {''All'', ''Alpha'', ''Beta''}"
    using fleet_options_january [of plainHost "''Alpha''"] by (simp only: j)
  have s: "FleetManagement_effect plainHost fleetRows januaryAlpha = januaryAlpha"
    by (simp add: FleetManagement_effect_def o) (simp add: januaryAlpha_def)
  have n: "Business_Units januaryAlpha \<noteq> ''All''"
    by (simp add: januaryAlpha_def)
  have m: "Business_Units januaryAlpha \<in> set (FleetManagement_businessUnits plainHost fleetRows januaryAlpha)"
    using stale_selection_is_reset [where H = plainHost and fleet = fleetRows and fm = januaryAlpha] s n
    by blast
  note T = stale_selection_is_reset
             [where H = plainHost and fleet = fleetRows and fm = "januaryAlpha\<lparr>Business_Units := ''Gamma''\<rparr>"
                and jobCards = jobCardRows and jc = "allJobCard\<lparr>Business_Units := ''Gamma''\<rparr>"
                and jcSearch = "[]" and vehicles = vehicleRows
                and fl = "allInternal\<lparr>Fleet_Category := ''Heavy''\<rparr>" and ifSearch = "[]"]
  have g: "''Gamma'' \<notin> set (FleetManagement_businessUnits plainHost fleetRows
                              (januaryAlpha\<lparr>Business_Units := ''Gamma''\<rparr>))"
          "''Gamma'' \<notin> set (JobCardView_businessUnits plainHost jobCardRows
                              (allJobCard\<lparr>Business_Units := ''Gamma''\<rparr>) [])"
          "''Heavy'' \<notin> set (InternalFleetsView_fleetCategories plainHost vehicleRows
                              (allInternal\<lparr>Fleet_Category := ''Heavy''\<rparr>) [])"
    by (simp_all add: fleet_options_january jobCard_options_all vehicle_options_all)
  show ?thesis
    using T g s m by simp
qed

section \<open>Scenario A in the Driver and Operator view\<close>

lemma scenarioA_jan_matches: "DriverOperator_match H scenarioA_filters [] scenarioA_jan"
  by (simp add: DriverOperator_match_def DriverOperator_baseMatch_def DriverOperator_itemMonthName_def
      DriverOperator_itemYear_def scenarioA_jan_def scenarioA_filters_def obj_def truthy_def toStr_def
      toUpperCase_abbreviations substring03_def trim_def toLowerCase_def)

lemma scenarioA_feb_fails: "\<not> DriverOperator_match H scenarioA_filters [] scenarioA_feb"
  by (simp add: DriverOperator_match_def DriverOperator_baseMatch_def DriverOperator_itemMonthName_def
      DriverOperator_itemYear_def scenarioA_feb_def scenarioA_filters_def obj_def truthy_def toStr_def
      toUpperCase_abbreviations substring03_def trim_def toLowerCase_def)

lemma scenarioA_filtered:
  "DriverOperator_filteredData H [scenarioA_jan, scenarioA_feb] scenarioA_filters [] = [scenarioA_jan]"
  by (simp add: DriverOperator_filteredData_def scenarioA_jan_matches scenarioA_feb_fails)

lemma scenarioA_revenue: "DriverOperator_totalRevenue H [scenarioA_jan] = Num (Fin 100)"
  by (simp add: DriverOperator_totalRevenue_def scenarioA_jan_def obj_def js_nullish_def js_add_Fin
      toDouble_small)

lemma scenarioA_expense: "DriverOperator_totalExpense H [scenarioA_jan] = Num (Fin 40)"
  by (simp add: DriverOperator_totalExpense_def scenarioA_jan_def obj_def js_nullish_def js_add_Fin
      toDouble_small)

lemma scenarioA_profit: "DriverOperator_totalProfit H [scenarioA_jan] = Num (Fin 0)"
  by (simp add: DriverOperator_totalProfit_def scenarioA_jan_def obj_def js_nullish_def js_add_Fin
      toDouble_small)

text \<open>
  C7, as stated, fails: on the two rows of Scenario A with the filter state January 2024
  the total profit of the Driver and Operator view is not 60.
\<close>

theorem scenarioA_profit_is_not_60:
  "DriverOperator_totalProfit plainHost
     (DriverOperator_filteredData plainHost [scenarioA_jan, scenarioA_feb] scenarioA_filters [])
   \<noteq> Num (Fin 60)"
  by (simp add: scenarioA_filtered scenarioA_profit)

text \<open>
  C7, amended.  On the two rows of Scenario A with the filter state January 2024 and every
  other dimension at "All", the filtered subset is the January row alone (length 1), the
  total revenue is 100, the total expense is 40 and the total profit is 0: the view sums
  the Profit column, which the rows of the scenario do not have.
\<close>

theorem scenarioA_totals:
  "DriverOperator_filteredData H [scenarioA_jan, scenarioA_feb] scenarioA_filters [] = [scenarioA_jan]
   \<and> length (DriverOperator_filteredData H [scenarioA_jan, scenarioA_feb] scenarioA_filters []) = 1
   \<and> DriverOperator_totalRevenue H
        (DriverOperator_filteredData H [scenarioA_jan, scenarioA_feb] scenarioA_filters []) = Num (Fin 100)
   \<and> DriverOperator_totalExpense H
        (DriverOperator_filteredData H [scenarioA_jan, scenarioA_feb] scenarioA_filters []) = Num (Fin 40)
   \<and> DriverOperator_totalProfit H
        (DriverOperator_filteredData H [scenarioA_jan, scenarioA_feb] scenarioA_filters []) = Num (Fin 0)"
  by (simp add: scenarioA_filtered scenarioA_revenue scenarioA_expense scenarioA_profit)

theorem scenarioA_totals_witness:
  "DriverOperator_filteredData plainHost [scenarioA_jan, scenarioA_feb] scenarioA_filters [] = [scenarioA_jan]
   \<and> length (DriverOperator_filteredData plainHost [scenarioA_jan, scenarioA_feb] scenarioA_filters []) = 1
   \<and> DriverOperator_totalRevenue plainHost
        (DriverOperator_filteredData plainHost [scenarioA_jan, scenarioA_feb] scenarioA_filters []) = Num (Fin 100)
   \<and> DriverOperator_totalExpense plainHost
        (DriverOperator_filteredData plainHost [scenarioA_jan, scenarioA_feb] scenarioA_filters []) = Num (Fin 40)
   \<and> DriverOperator_totalProfit plainHost
        (DriverOperator_filteredData plainHost [scenarioA_jan, scenarioA_feb] scenarioA_filters []) = Num (Fin 0)"
  by (rule scenarioA_totals [of plainHost])

section \<open>Rows without a registration number\<close>

lemma hasRegNo_not_blank: "hasRegNo H r \<Longrightarrow> \<not> blankCell (rawGet r ''Reg No:'')"
  by (auto simp: hasRegNo_def blankCell_def truthy_def toStr_def split: jsval.splits)

lemma blank_is_dropped: "blankCell (rawGet r ''Reg No:'') \<Longrightarrow> \<not> hasRegNo H r"
  using hasRegNo_not_blank by blast

lemma cleanValue_not_blank: "\<not> blankCell v \<Longrightarrow> \<not> blankCell (cleanValue H v)"
  by (auto simp: cleanValue_def blankCell_def isValidDate_def split: jsval.splits jsdate.splits prod.splits)

lemma foldl_trimmed_keys:
  assumes "\<forall>key\<in>set keys. trim key = K \<longrightarrow> key = K0"
  shows "foldl (\<lambda>cleanedRow key. cleanedRow(trim key := f key)) init keys K
         = (if \<exists>key\<in>set keys. trim key = K then f K0 else init K)"
  using assms
proof (induction keys rule: rev_induct)
  case Nil
  then show ?case by simp
next
  case (snoc key keys)
  then show ?case by auto
qed

lemma trim_RegNo: "trim ''Reg No:'' = ''Reg No:''"
  by (simp add: trim_def isWhiteSpace_def)

lemma rawGet_defined: "rawGet r key \<noteq> Undefined \<Longrightarrow> key \<in> set (map fst r)"
  by (auto simp: rawGet_def map_of_eq_None_iff split: option.splits)
     (metis map_of_eq_None_iff option.distinct(1) image_eqI fst_conv)

lemma cleanRow_RegNo:
  assumes "regNoKeyUnique r" and "hasRegNo H r"
  shows "cleanRow H r ''Reg No:'' = cleanValue H (rawGet r ''Reg No:'')"
proof -
  have u: "\<forall>key\<in>set (map fst r). trim key = ''Reg No:'' \<longrightarrow> key = ''Reg No:''"
    using assms(1) by (simp add: regNoKeyUnique_def list_all_iff)
  have "rawGet r ''Reg No:'' \<noteq> Undefined"
    using assms(2) by (auto simp: hasRegNo_def truthy_def)
  then have "''Reg No:'' \<in> set (map fst r)"
    by (rule rawGet_defined)
  then have "\<exists>key\<in>set (map fst r). trim key = ''Reg No:''"
    using trim_RegNo by blast
  then show ?thesis
    unfolding cleanRow_def foldl_trimmed_keys [OF u] by simp
qed

text \<open>
  C8, as stated, fails: a raw row that has a registration number, and a second header
  that differs from \<open>Reg No:\<close> only by a trailing space and holds a single space, passes
  the filter and is normalized to a row whose \<open>Reg No:\<close> is that space.
\<close>

theorem duplicate_header_leaves_blank_regNo:
  "map regNoOf (cleanedJson plainHost ''Internal Fleets'' rawDuplicateHeader) = [Str '' '']
   \<and> blankCell (Str '' '')"
  by (simp add: cleanedJson_def rawDuplicateHeader_def hasRegNo_def rawGet_def truthy_def toStr_Str
      trim_def isWhiteSpace_def cleanRow_def cleanValue_def isValidDate_def regNoOf_def blankCell_def)

text \<open>
  C8, amended.  The normalized Internal Fleets collection is the normalization of exactly
  the raw rows that pass the registration-number filter, and a raw row whose \<open>Reg No:\<close>
  is missing, empty or only white space does not pass: every normalized row comes from a
  raw row with a registration number that is not blank.  Where no other header of the raw
  rows trims to \<open>Reg No:\<close>, no normalized row has a blank \<open>Reg No:\<close>.
\<close>

theorem blank_regNo_rows_are_dropped:
  "cleanedJson H ''Internal Fleets'' rawJson = map (cleanRow H) (filter (hasRegNo H) rawJson)
   \<and> (\<forall>r\<in>set rawJson. blankCell (rawGet r ''Reg No:'') \<longrightarrow> r \<notin> set (filter (hasRegNo H) rawJson))
   \<and> (\<forall>r\<in>set (filter (hasRegNo H) rawJson). \<not> blankCell (rawGet r ''Reg No:''))
   \<and> (list_all regNoKeyUnique rawJson
      \<longrightarrow> (\<forall>cleanedRow\<in>set (cleanedJson H ''Internal Fleets'' rawJson). \<not> blankCell (regNoOf cleanedRow)))"
proof (intro conjI impI ballI)
  show "cleanedJson H ''Internal Fleets'' rawJson = map (cleanRow H) (filter (hasRegNo H) rawJson)"
    by (simp add: cleanedJson_def)
next
  fix r assume "blankCell (rawGet r ''Reg No:'')"
  then show "r \<notin> set (filter (hasRegNo H) rawJson)"
    using blank_is_dropped by auto
next
  fix r assume "r \<in> set (filter (hasRegNo H) rawJson)"
  then show "\<not> blankCell (rawGet r ''Reg No:'')"
    using hasRegNo_not_blank by auto
next
  fix cleanedRow
  assume u: "list_all regNoKeyUnique rawJson"
    and c: "cleanedRow \<in> set (cleanedJson H ''Internal Fleets'' rawJson)"
  from c obtain r where r: "r \<in> set rawJson" "hasRegNo H r" "cleanedRow = cleanRow H r"
    by (auto simp: cleanedJson_def)
  have "regNoKeyUnique r"
    using u r(1) by (simp add: list_all_iff)
  then have "regNoOf cleanedRow = cleanValue H (rawGet r ''Reg No:'')"
    using r by (simp add: regNoOf_def cleanRow_RegNo)
  then show "\<not> blankCell (regNoOf cleanedRow)"
    using hasRegNo_not_blank [OF r(2)] cleanValue_not_blank by simp
qed

lemma rawVehicles_unique: "list_all regNoKeyUnique rawVehicles"
  by (simp add: rawVehicles_def regNoKeyUnique_def trim_def isWhiteSpace_def)

lemma rawVehicles_cleaned:
  "map regNoOf (cleanedJson plainHost ''Internal Fleets'' rawVehicles) = [Str ''A1'']"
  by (simp add: cleanedJson_def rawVehicles_def hasRegNo_def rawGet_def truthy_def toStr_Str
      trim_def isWhiteSpace_def cleanRow_def cleanValue_def isValidDate_def regNoOf_def)

theorem blank_regNo_rows_are_dropped_witness:
  "list_all regNoKeyUnique rawVehicles
   \<and> map regNoOf (cleanedJson plainHost ''Internal Fleets'' rawVehicles) = [Str ''A1'']
   \<and> list_all (\<lambda>cleanedRow. \<not> blankCell (regNoOf cleanedRow))
        (cleanedJson plainHost ''Internal Fleets'' rawVehicles)"
  using blank_regNo_rows_are_dropped [of plainHost rawVehicles] rawVehicles_unique rawVehicles_cleaned
  by (simp add: list_all_iff)

section \<open>The invoice count of the dashboard\<close>

lemma filterByBUAndDate_allShared: "filterByBUAndDate H allShared item"
  by (simp add: filterByBUAndDate_def allShared_def)

text \<open>
  C9.  The dashboard counts the distinct values of the invoice-number key without leaving
  out the missing ones: with one row carrying invoice INV-1 and one row carrying none the
  count is 2, the missing key being counted as a value.  The External Fleets view, which
  skips null, undefined and blank invoice numbers, counts 1 on the same rows.
\<close>

theorem dashboard_counts_missing_invoice:
  "externalInvoice plainHost invoiceData allShared = 2
   \<and> DataView_uniqueInvoiceCount plainHost (External_Fleets invoiceData) = 1"
  by (simp add: externalInvoice_def filtered_external_def filterByBUAndDate_allShared invoiceData_def
      DataView_uniqueInvoiceCount_def setSize_def obj_def isDateObject_def toStr_def trim_def isWhiteSpace_def)

section \<open>Average amounts\<close>

lemma JobCardView_average_cases:
  "JobCardView_averageAmount H xs
   = (if xs = [] then Num (Fin 0)
      else js_div H (JobCardView_totalAmount H xs) (Num (Fin (of_nat (length xs)))))"
  by (simp add: JobCardView_averageAmount_def)

lemma InternalFleetsView_average_cases:
  "InternalFleetsView_averageAmount H xs
   = (if xs = [] then Num (Fin 0)
      else js_div H (InternalFleetsView_totalAmount H xs) (Num (Fin (of_nat (length xs)))))"
  by (simp add: InternalFleetsView_averageAmount_def)

lemma InternalFleetsView_All:
  "InternalFleetsView_filteredData H data allInternal [] ''All'' = data"
  by (simp add: InternalFleetsView_filteredData_def InternalFleetsView_match_def
      InternalFleetsView_baseMatch_def allInternal_def toLowerCase_def trim_def)

lemma example_totals:
  "JobCardView_totalAmount H jobCardRows = Num (Fin 30)"
  "InternalFleetsView_totalAmount H vehicleRows = Num (Fin 100)"
  by (simp_all add: JobCardView_totalAmount_def InternalFleetsView_totalAmount_def jobCardRows_def
      vehicleRows_def obj_def js_or_def truthy_def js_add_Fin toDouble_small)

text \<open>
  C10.  The average amount of the Job Card view and of the Internal Fleets view is exactly
  0 when the filtered subset is empty, and the total amount divided by the record count,
  by one floating-point division, when it is not.
\<close>

theorem average_amounts_are_division_safe:
  "(let jc = JobCardView_filteredData H jcData jcFilters jcSearch;
        fl = InternalFleetsView_filteredData H ifData ifFilters ifSearch sharedInternalType
    in (jc = [] \<longrightarrow> JobCardView_averageAmount H jc = Num (Fin 0))
       \<and> (jc \<noteq> [] \<longrightarrow> JobCardView_averageAmount H jc
              = js_div H (JobCardView_totalAmount H jc) (Num (Fin (of_nat (length jc)))))
       \<and> (fl = [] \<longrightarrow> InternalFleetsView_averageAmount H fl = Num (Fin 0))
       \<and> (fl \<noteq> [] \<longrightarrow> InternalFleetsView_averageAmount H fl
              = js_div H (InternalFleetsView_totalAmount H fl) (Num (Fin (of_nat (length fl))))))"
  unfolding Let_def
  by (intro conjI impI) (simp_all add: JobCardView_average_cases InternalFleetsView_average_cases)

theorem average_amounts_are_division_safe_witness:
  "JobCardView_filteredData plainHost jobCardRows gammaJobCard [] = []
   \<and> JobCardView_averageAmount plainHost
        (JobCardView_filteredData plainHost jobCardRows gammaJobCard []) = Num (Fin 0)
   \<and> InternalFleetsView_filteredData plainHost [] allInternal [] ''All'' = []
   \<and> InternalFleetsView_averageAmount plainHost
        (InternalFleetsView_filteredData plainHost [] allInternal [] ''All'') = Num (Fin 0)
   \<and> JobCardView_filteredData plainHost jobCardRows allJobCard [] \<noteq> []
   \<and> JobCardView_averageAmount plainHost (JobCardView_filteredData plainHost jobCardRows allJobCard [])
       = Num (Fin 15)
   \<and> InternalFleetsView_filteredData plainHost vehicleRows allInternal [] ''All'' \<noteq> []
   \<and> InternalFleetsView_averageAmount plainHost
        (InternalFleetsView_filteredData plainHost vehicleRows allInternal [] ''All'') = Num (Fin 50)"
proof -
  have jc: "JobCardView_filteredData plainHost jobCardRows allJobCard [] = jobCardRows"
    unfolding allJobCard_def by (rule JobCardView_All)
  have fl: "InternalFleetsView_filteredData plainHost vehicleRows allInternal [] ''All'' = vehicleRows"
    by (rule InternalFleetsView_All)
  have fl0: "InternalFleetsView_filteredData plainHost [] allInternal [] ''All'' = []"
    by (rule InternalFleetsView_All)
  have jc0: "JobCardView_filteredData plainHost jobCardRows gammaJobCard [] = []"
    by (simp add: JobCardView_filteredData_def JobCardView_match_def JobCardView_baseMatch_def
        gammaJobCard_def jobCardRows_def obj_def toStr_def)
  have n: "jobCardRows \<noteq> []" "vehicleRows \<noteq> []" "length jobCardRows = 2" "length vehicleRows = 2"
    by (simp_all add: jobCardRows_def vehicleRows_def)
  note T = average_amounts_are_division_safe
             [of plainHost jobCardRows allJobCard "[]" vehicleRows allInternal "[]" "''All''",
              unfolded Let_def jc fl]
  note E = average_amounts_are_division_safe
             [of plainHost jobCardRows gammaJobCard "[]" "[]" allInternal "[]" "''All''",
              unfolded Let_def]
  have "JobCardView_averageAmount plainHost jobCardRows
        = js_div plainHost (JobCardView_totalAmount plainHost jobCardRows)
            (Num (Fin (of_nat (length jobCardRows))))"
    using T n by blast
  then have a: "JobCardView_averageAmount plainHost jobCardRows = Num (Fin 15)"
    by (simp add: n example_totals js_div_Fin toDouble_small)
  have "InternalFleetsView_averageAmount plainHost vehicleRows
        = js_div plainHost (InternalFleetsView_totalAmount plainHost vehicleRows)
            (Num (Fin (of_nat (length vehicleRows))))"
    using T n by blast
  then have b: "InternalFleetsView_averageAmount plainHost vehicleRows = Num (Fin 50)"
    by (simp add: n example_totals js_div_Fin toDouble_small)
  have e: "JobCardView_averageAmount plainHost
             (JobCardView_filteredData plainHost jobCardRows gammaJobCard []) = Num (Fin 0)"
    using E jc0 by blast
  have e': "InternalFleetsView_averageAmount plainHost
              (InternalFleetsView_filteredData plainHost [] allInternal [] ''All'') = Num (Fin 0)"
    using E fl0 by blast
  show ?thesis
    using a b e e' n jc0 by (simp add: jc fl fl0)
qed

end
